theory Spec2Isabelle
  imports Main "HOL-Library.Word"
begin

unbundle bit_operations_syntax

section \<open>Data model of the STM32 ADC core driver\<close>

text \<open>
  The driver is \<^verbatim>\<open>drivers/iio/adc/stm32-adc-core.c\<close>. C's \<^verbatim>\<open>u32\<close> is a 32-bit word.
  Clocks, regulators and syscon register maps are opaque handles owned by their
  providers; a handle is a number here, and a \<^verbatim>\<open>NULL\<close> clock or an \<^verbatim>\<open>ERR_PTR\<close>
  regulator or regmap is \<open>None\<close>.
\<close>

type_synonym u32 = "32 word"
type_synonym clk = nat
type_synonym regulator = nat
type_synonym regmap = nat

text \<open>
  The register window at \<^verbatim>\<open>priv->common.base\<close>: byte offset from the base to the
  32-bit value that \<^verbatim>\<open>readl_relaxed\<close> returns there.
\<close>

type_synonym iomem = "nat \<Rightarrow> u32"

text \<open>
  The constants that the file takes from its header \<^verbatim>\<open>stm32-adc-core.h\<close>. Their
  values are fixed by the header, not by this file, so they are a parameter of every
  definition that needs one.
\<close>

record stm32_adc_core_h =
  STM32_ADC_OFFSET :: u32
  STM32_ADCX_COMN_OFFSET :: u32
  STM32F4_ADC_CR1 :: u32
  STM32F4_ADC_CCR :: u32
  STM32F4_EOCIE :: u32
  STM32H7_ADC_IER :: u32
  STM32H7_ADC_CCR :: u32
  STM32H7_EOCIE :: u32

record stm32_adc_common_regs =
  csr :: u32
  ccr :: u32
  eoc1_msk :: u32
  eoc2_msk :: u32
  eoc3_msk :: u32
  jeoc1_msk :: u32
  jeoc2_msk :: u32
  jeoc3_msk :: u32
  ier :: u32
  eocie_msk :: u32

text \<open>
  \<^verbatim>\<open>struct stm32_adc_priv_cfg\<close> without its \<^verbatim>\<open>clk_sel\<close> function pointer and its
  trigger table, which no definition below reads.
\<close>

record stm32_adc_priv_cfg =
  regs :: stm32_adc_common_regs
  max_clk_rate_hz :: u32
  has_syscfg_clr :: bool

record stm32_adc_syscfg =
  regmap :: "regmap option"
  reg :: u32
  mask_bits :: u32

text \<open>
  \<^verbatim>\<open>struct stm32_adc_priv\<close>. \<open>common_rate\<close> is \<^verbatim>\<open>priv->common.rate\<close>. The interrupt
  numbers and the interrupt domain are left out: the dispatcher below returns the
  hardware interrupt numbers it looks up in the domain.
\<close>

record stm32_adc_priv =
  aclk :: "clk option"
  bclk :: "clk option"
  max_clk_rate :: u32
  vdd :: "regulator option"
  vdda :: "regulator option"
  vref :: regulator
  cfg :: stm32_adc_priv_cfg
  common_rate :: nat
  ccr_bak :: u32
  vbooster :: stm32_adc_syscfg
  vbooster_clr :: stm32_adc_syscfg
  anaswvdd :: stm32_adc_syscfg
  anaswvdd_clr :: stm32_adc_syscfg

datatype errno = ENOENT | EINVAL

definition BIT :: "nat \<Rightarrow> u32" where
  "BIT n = push_bit n 1"

section \<open>Register bit fields\<close>

definition STM32F4_OVR3 :: u32 where "STM32F4_OVR3 = BIT 21"
definition STM32F4_JEOC3 :: u32 where "STM32F4_JEOC3 = BIT 18"
definition STM32F4_EOC3 :: u32 where "STM32F4_EOC3 = BIT 17"
definition STM32F4_AWD3 :: u32 where "STM32F4_AWD3 = BIT 16"
definition STM32F4_OVR2 :: u32 where "STM32F4_OVR2 = BIT 13"
definition STM32F4_JEOC2 :: u32 where "STM32F4_JEOC2 = BIT 10"
definition STM32F4_EOC2 :: u32 where "STM32F4_EOC2 = BIT 9"
definition STM32F4_AWD2 :: u32 where "STM32F4_AWD2 = BIT 8"
definition STM32F4_OVR1 :: u32 where "STM32F4_OVR1 = BIT 5"
definition STM32F4_JEOC1 :: u32 where "STM32F4_JEOC1 = BIT 2"
definition STM32F4_EOC1 :: u32 where "STM32F4_EOC1 = BIT 1"
definition STM32F4_AWD1 :: u32 where "STM32F4_AWD1 = BIT 0"

definition STM32F4_EOC_MASK1 :: u32 where
  "STM32F4_EOC_MASK1 = STM32F4_EOC1 OR STM32F4_AWD1 OR STM32F4_OVR1"
definition STM32F4_EOC_MASK2 :: u32 where
  "STM32F4_EOC_MASK2 = STM32F4_EOC2 OR STM32F4_AWD2 OR STM32F4_OVR2"
definition STM32F4_EOC_MASK3 :: u32 where
  "STM32F4_EOC_MASK3 = STM32F4_EOC3 OR STM32F4_AWD3 OR STM32F4_OVR3"
definition STM32F4_JEOC_MASK1 :: u32 where
  "STM32F4_JEOC_MASK1 = STM32F4_JEOC1 OR STM32F4_AWD1"
definition STM32F4_JEOC_MASK2 :: u32 where
  "STM32F4_JEOC_MASK2 = STM32F4_JEOC2 OR STM32F4_AWD2"
definition STM32F4_JEOC_MASK3 :: u32 where
  "STM32F4_JEOC_MASK3 = STM32F4_JEOC3 OR STM32F4_AWD3"

definition STM32F4_ADC_ADCPRE_SHIFT :: nat where "STM32F4_ADC_ADCPRE_SHIFT = 16"
text \<open>\<^verbatim>\<open>GENMASK(17, 16)\<close>\<close>
definition STM32F4_ADC_ADCPRE_MASK :: u32 where
  "STM32F4_ADC_ADCPRE_MASK = BIT 17 OR BIT 16"

definition STM32H7_AWD3_SLV :: u32 where "STM32H7_AWD3_SLV = BIT 25"
definition STM32H7_AWD2_SLV :: u32 where "STM32H7_AWD2_SLV = BIT 24"
definition STM32H7_AWD1_SLV :: u32 where "STM32H7_AWD1_SLV = BIT 23"
definition STM32H7_JEOS_SLV :: u32 where "STM32H7_JEOS_SLV = BIT 22"
definition STM32H7_OVR_SLV :: u32 where "STM32H7_OVR_SLV = BIT 20"
definition STM32H7_EOC_SLV :: u32 where "STM32H7_EOC_SLV = BIT 18"
definition STM32H7_AWD3_MST :: u32 where "STM32H7_AWD3_MST = BIT 9"
definition STM32H7_AWD2_MST :: u32 where "STM32H7_AWD2_MST = BIT 8"
definition STM32H7_AWD1_MST :: u32 where "STM32H7_AWD1_MST = BIT 7"
definition STM32H7_JEOS_MST :: u32 where "STM32H7_JEOS_MST = BIT 6"
definition STM32H7_OVR_MST :: u32 where "STM32H7_OVR_MST = BIT 4"
definition STM32H7_EOC_MST :: u32 where "STM32H7_EOC_MST = BIT 2"

definition STM32H7_EOC_MASK1 :: u32 where
  "STM32H7_EOC_MASK1 = STM32H7_EOC_MST OR STM32H7_AWD1_MST OR STM32H7_AWD2_MST
     OR STM32H7_AWD3_MST OR STM32H7_OVR_MST"
definition STM32H7_EOC_MASK2 :: u32 where
  "STM32H7_EOC_MASK2 = STM32H7_EOC_SLV OR STM32H7_AWD1_SLV OR STM32H7_AWD2_SLV
     OR STM32H7_AWD3_SLV OR STM32H7_OVR_SLV"
definition STM32H7_JEOC_MASK1 :: u32 where
  "STM32H7_JEOC_MASK1 = STM32H7_JEOS_MST OR STM32H7_AWD1_MST OR STM32H7_AWD2_MST
     OR STM32H7_AWD3_MST"
definition STM32H7_JEOC_MASK2 :: u32 where
  "STM32H7_JEOC_MASK2 = STM32H7_JEOS_SLV OR STM32H7_AWD1_SLV OR STM32H7_AWD2_SLV
     OR STM32H7_AWD3_SLV"

definition STM32H7_PRESC_SHIFT :: nat where "STM32H7_PRESC_SHIFT = 18"
text \<open>\<^verbatim>\<open>GENMASK(21, 18)\<close>\<close>
definition STM32H7_PRESC_MASK :: u32 where
  "STM32H7_PRESC_MASK = BIT 21 OR BIT 20 OR BIT 19 OR BIT 18"
definition STM32H7_CKMODE_SHIFT :: nat where "STM32H7_CKMODE_SHIFT = 16"
text \<open>\<^verbatim>\<open>GENMASK(17, 16)\<close>\<close>
definition STM32H7_CKMODE_MASK :: u32 where
  "STM32H7_CKMODE_MASK = BIT 17 OR BIT 16"

section \<open>Clock selection\<close>

text \<open>
  \<^verbatim>\<open>clk_get_rate\<close> belongs to the clock provider and is a parameter \<open>get_rate\<close>.
  Its \<^verbatim>\<open>unsigned long\<close> result is a natural number: the driver only divides it by a
  positive table entry and compares the quotient with the 32-bit bound, neither of
  which can overflow. The quotient stored in \<^verbatim>\<open>priv->common.rate\<close> is at most the
  32-bit bound whenever it is stored.
\<close>

definition stm32f4_pclk_div :: "int list" where
  "stm32f4_pclk_div = [2, 4, 6, 8]"

text \<open>
  The \<^verbatim>\<open>for\<close> loop of \<^verbatim>\<open>stm32f4_adc_clk_sel\<close>: the list is the table from index \<open>i\<close>
  on, the result is the value of \<open>i\<close> when the loop is left, by \<^verbatim>\<open>break\<close> or at the
  end of the table.
\<close>

fun stm32f4_scan :: "nat \<Rightarrow> u32 \<Rightarrow> int list \<Rightarrow> nat \<Rightarrow> nat" where
  "stm32f4_scan rate max_rate [] i = i"
| "stm32f4_scan rate max_rate (d # ds) i =
     (if rate div nat d \<le> unat max_rate then i
      else stm32f4_scan rate max_rate ds (Suc i))"

definition stm32f4_adc_clk_sel ::
  "stm32_adc_core_h \<Rightarrow> (clk \<Rightarrow> nat) \<Rightarrow> stm32_adc_priv \<Rightarrow> iomem
     \<Rightarrow> errno + (stm32_adc_priv \<times> iomem)" where
  "stm32f4_adc_clk_sel h get_rate priv io =
     (case aclk priv of
        None \<Rightarrow> Inl ENOENT
      | Some a \<Rightarrow>
          (let rate = get_rate a in
           if rate = 0 then Inl EINVAL
           else
             (let i = stm32f4_scan rate (max_clk_rate priv) stm32f4_pclk_div 0 in
              if i \<ge> length stm32f4_pclk_div then Inl EINVAL
              else
                (let val = io (unat (STM32F4_ADC_CCR h));
                     val = val AND NOT STM32F4_ADC_ADCPRE_MASK;
                     val = val OR push_bit STM32F4_ADC_ADCPRE_SHIFT (of_nat i)
                 in Inr (priv\<lparr>common_rate := rate div nat (stm32f4_pclk_div ! i)\<rparr>,
                         io (unat (STM32F4_ADC_CCR h) := val))))))"

record stm32h7_adc_ck_spec =
  ckmode :: u32
  presc :: u32
  ck_div :: int

definition ck_spec :: "u32 \<Rightarrow> u32 \<Rightarrow> int \<Rightarrow> stm32h7_adc_ck_spec" where
  "ck_spec m p d = \<lparr>ckmode = m, presc = p, ck_div = d\<rparr>"

definition stm32h7_adc_ckmodes_spec :: "stm32h7_adc_ck_spec list" where
  "stm32h7_adc_ckmodes_spec =
     [ck_spec 0 0 1, ck_spec 0 1 2, ck_spec 0 2 4, ck_spec 0 3 6,
      ck_spec 0 4 8, ck_spec 0 5 10, ck_spec 0 6 12, ck_spec 0 7 16,
      ck_spec 0 8 32, ck_spec 0 9 64, ck_spec 0 10 128, ck_spec 0 11 256,
      ck_spec 1 0 1, ck_spec 2 0 2, ck_spec 3 0 4]"

text \<open>
  The two \<^verbatim>\<open>for\<close> loops of \<^verbatim>\<open>stm32h7_adc_clk_sel\<close>, over the rest of the table. The
  first skips the entries with a nonzero \<^verbatim>\<open>ckmode\<close>, the second those with
  \<^verbatim>\<open>ckmode\<close> zero. \<open>Some s\<close> is the entry whose fields are in \<^verbatim>\<open>ckmode\<close>, \<^verbatim>\<open>presc\<close>
  and \<^verbatim>\<open>div\<close> at \<^verbatim>\<open>goto out\<close>; \<open>None\<close> is the loop running to the end of the table.
\<close>

fun stm32h7_scan_async ::
  "nat \<Rightarrow> u32 \<Rightarrow> stm32h7_adc_ck_spec list \<Rightarrow> stm32h7_adc_ck_spec option" where
  "stm32h7_scan_async rate max_rate [] = None"
| "stm32h7_scan_async rate max_rate (s # ss) =
     (if ckmode s \<noteq> 0 then stm32h7_scan_async rate max_rate ss
      else if rate div nat (ck_div s) \<le> unat max_rate then Some s
      else stm32h7_scan_async rate max_rate ss)"

fun stm32h7_scan_sync ::
  "nat \<Rightarrow> u32 \<Rightarrow> stm32h7_adc_ck_spec list \<Rightarrow> stm32h7_adc_ck_spec option" where
  "stm32h7_scan_sync rate max_rate [] = None"
| "stm32h7_scan_sync rate max_rate (s # ss) =
     (if ckmode s = 0 then stm32h7_scan_sync rate max_rate ss
      else if rate div nat (ck_div s) \<le> unat max_rate then Some s
      else stm32h7_scan_sync rate max_rate ss)"

text \<open>The code at the label \<^verbatim>\<open>out\<close>, with the rate and the table entry it is reached with.\<close>

definition stm32h7_clk_sel_out ::
  "stm32_adc_core_h \<Rightarrow> stm32_adc_priv \<Rightarrow> iomem \<Rightarrow> nat \<Rightarrow> stm32h7_adc_ck_spec
     \<Rightarrow> stm32_adc_priv \<times> iomem" where
  "stm32h7_clk_sel_out h priv io rate s =
     (let val = io (unat (STM32H7_ADC_CCR h));
          val = val AND NOT (STM32H7_CKMODE_MASK OR STM32H7_PRESC_MASK);
          val = val OR push_bit STM32H7_CKMODE_SHIFT (ckmode s);
          val = val OR push_bit STM32H7_PRESC_SHIFT (presc s)
      in (priv\<lparr>common_rate := rate div nat (ck_div s)\<rparr>,
          io (unat (STM32H7_ADC_CCR h) := val)))"

text \<open>The part of \<^verbatim>\<open>stm32h7_adc_clk_sel\<close> from the comment on synchronous modes on.\<close>

definition stm32h7_clk_sel_sync ::
  "stm32_adc_core_h \<Rightarrow> (clk \<Rightarrow> nat) \<Rightarrow> stm32_adc_priv \<Rightarrow> iomem \<Rightarrow> clk
     \<Rightarrow> errno + (stm32_adc_priv \<times> iomem)" where
  "stm32h7_clk_sel_sync h get_rate priv io b =
     (let rate = get_rate b in
      if rate = 0 then Inl EINVAL
      else
        (case stm32h7_scan_sync rate (max_clk_rate priv) stm32h7_adc_ckmodes_spec of
           Some s \<Rightarrow> Inr (stm32h7_clk_sel_out h priv io rate s)
         | None \<Rightarrow> Inl EINVAL))"

definition stm32h7_adc_clk_sel ::
  "stm32_adc_core_h \<Rightarrow> (clk \<Rightarrow> nat) \<Rightarrow> stm32_adc_priv \<Rightarrow> iomem
     \<Rightarrow> errno + (stm32_adc_priv \<times> iomem)" where
  "stm32h7_adc_clk_sel h get_rate priv io =
     (case bclk priv of
        None \<Rightarrow> Inl ENOENT
      | Some b \<Rightarrow>
          (case aclk priv of
             Some a \<Rightarrow>
               (let rate = get_rate a in
                if rate = 0 then Inl EINVAL
                else
                  (case stm32h7_scan_async rate (max_clk_rate priv)
                          stm32h7_adc_ckmodes_spec of
                     Some s \<Rightarrow> Inr (stm32h7_clk_sel_out h priv io rate s)
                   | None \<Rightarrow> stm32h7_clk_sel_sync h get_rate priv io b))
           | None \<Rightarrow> stm32h7_clk_sel_sync h get_rate priv io b))"

text \<open>
  The bound that \<^verbatim>\<open>stm32_adc_probe\<close> stores in \<^verbatim>\<open>priv->max_clk_rate\<close> before it calls
  the clock selector. \<open>override\<close> is the value of the property
  \<^verbatim>\<open>st,max-clk-rate-hz\<close> when \<^verbatim>\<open>of_property_read_u32\<close> returns 0, and \<open>None\<close> when it
  returns an error.
\<close>

definition stm32_adc_probe_max_clk_rate ::
  "stm32_adc_priv \<Rightarrow> u32 option \<Rightarrow> stm32_adc_priv" where
  "stm32_adc_probe_max_clk_rate priv override =
     (case override of
        Some max_rate \<Rightarrow>
          priv\<lparr>max_clk_rate := min max_rate (max_clk_rate_hz (cfg priv))\<rparr>
      | None \<Rightarrow> priv\<lparr>max_clk_rate := max_clk_rate_hz (cfg priv)\<rparr>)"

section \<open>Interrupt dispatch\<close>

definition STM32F4_ADC_CSR :: "stm32_adc_core_h \<Rightarrow> u32" where
  "STM32F4_ADC_CSR h = STM32_ADCX_COMN_OFFSET h + 0"

definition STM32H7_ADC_CSR :: "stm32_adc_core_h \<Rightarrow> u32" where
  "STM32H7_ADC_CSR h = STM32_ADCX_COMN_OFFSET h + 0"

definition stm32f4_adc_common_regs :: "stm32_adc_core_h \<Rightarrow> stm32_adc_common_regs" where
  "stm32f4_adc_common_regs h =
     \<lparr>csr = STM32F4_ADC_CSR h, ccr = STM32F4_ADC_CCR h,
      eoc1_msk = STM32F4_EOC_MASK1, eoc2_msk = STM32F4_EOC_MASK2,
      eoc3_msk = STM32F4_EOC_MASK3,
      jeoc1_msk = STM32F4_JEOC_MASK1, jeoc2_msk = STM32F4_JEOC_MASK2,
      jeoc3_msk = STM32F4_JEOC_MASK3,
      ier = STM32F4_ADC_CR1 h, eocie_msk = STM32F4_EOCIE h\<rparr>"

text \<open>The initialiser of the H7 registers names no third instance: its masks are 0.\<close>

definition stm32h7_adc_common_regs :: "stm32_adc_core_h \<Rightarrow> stm32_adc_common_regs" where
  "stm32h7_adc_common_regs h =
     \<lparr>csr = STM32H7_ADC_CSR h, ccr = STM32H7_ADC_CCR h,
      eoc1_msk = STM32H7_EOC_MASK1, eoc2_msk = STM32H7_EOC_MASK2,
      eoc3_msk = 0,
      jeoc1_msk = STM32H7_JEOC_MASK1, jeoc2_msk = STM32H7_JEOC_MASK2,
      jeoc3_msk = 0,
      ier = STM32H7_ADC_IER h, eocie_msk = STM32H7_EOCIE h\<rparr>"

text \<open>
  The configurations of the three compatibles. A field that an initialiser does not
  name is 0: \<^verbatim>\<open>has_syscfg_clr\<close> is set for the MP1 only.
\<close>

definition stm32f4_adc_priv_cfg :: "stm32_adc_core_h \<Rightarrow> stm32_adc_priv_cfg" where
  "stm32f4_adc_priv_cfg h =
     \<lparr>regs = stm32f4_adc_common_regs h, max_clk_rate_hz = 36000000,
      has_syscfg_clr = False\<rparr>"

definition stm32h7_adc_priv_cfg :: "stm32_adc_core_h \<Rightarrow> stm32_adc_priv_cfg" where
  "stm32h7_adc_priv_cfg h =
     \<lparr>regs = stm32h7_adc_common_regs h, max_clk_rate_hz = 36000000,
      has_syscfg_clr = False\<rparr>"

definition stm32mp1_adc_priv_cfg :: "stm32_adc_core_h \<Rightarrow> stm32_adc_priv_cfg" where
  "stm32mp1_adc_priv_cfg h =
     \<lparr>regs = stm32h7_adc_common_regs h, max_clk_rate_hz = 40000000,
      has_syscfg_clr = True\<rparr>"

definition stm32_adc_offset :: "stm32_adc_core_h \<Rightarrow> u32 list" where
  "stm32_adc_offset h = [0, STM32_ADC_OFFSET h, STM32_ADC_OFFSET h * 2]"

text \<open>The callers pass 0, 1 or 2 for \<open>adc\<close>, the indices of the offset table.\<close>

definition stm32_adc_eoc_enabled ::
  "stm32_adc_core_h \<Rightarrow> stm32_adc_priv \<Rightarrow> iomem \<Rightarrow> nat \<Rightarrow> u32" where
  "stm32_adc_eoc_enabled h priv io adc =
     (let offset = stm32_adc_offset h ! adc;
          ier_val = io (unat offset + unat (ier (regs (cfg priv))))
      in ier_val AND eocie_msk (regs (cfg priv)))"

text \<open>
  The chained handler. Its result is the list, in order, of the hardware interrupt
  numbers \<open>n\<close> of the calls \<^verbatim>\<open>generic_handle_irq(irq_find_mapping(priv->domain, n))\<close>
  that one invocation makes: the events it delivers to the virtual lines of the domain.
\<close>

definition stm32_adc_irq_handler ::
  "stm32_adc_core_h \<Rightarrow> stm32_adc_priv \<Rightarrow> iomem \<Rightarrow> nat list" where
  "stm32_adc_irq_handler h priv io =
     (let r = regs (cfg priv);
          status = io (unat (csr r))
      in (if status AND eoc1_msk r \<noteq> 0 \<and> stm32_adc_eoc_enabled h priv io 0 \<noteq> 0
          then [0] else [])
       @ (if status AND eoc2_msk r \<noteq> 0 \<and> stm32_adc_eoc_enabled h priv io 1 \<noteq> 0
          then [1] else [])
       @ (if status AND eoc3_msk r \<noteq> 0 \<and> stm32_adc_eoc_enabled h priv io 2 \<noteq> 0
          then [2] else [])
       @ (if status AND jeoc1_msk r \<noteq> 0 then [3] else [])
       @ (if status AND jeoc2_msk r \<noteq> 0 then [4] else [])
       @ (if status AND jeoc3_msk r \<noteq> 0 then [5] else []))"

text \<open>The masks of instance \<open>i\<close> (0, 1 or 2), as the handler pairs them with the lines.\<close>

definition eoc_msk :: "stm32_adc_common_regs \<Rightarrow> nat \<Rightarrow> u32" where
  "eoc_msk r i = (if i = 0 then eoc1_msk r else if i = 1 then eoc2_msk r else eoc3_msk r)"

definition jeoc_msk :: "stm32_adc_common_regs \<Rightarrow> nat \<Rightarrow> u32" where
  "jeoc_msk r i = (if i = 0 then jeoc1_msk r else if i = 1 then jeoc2_msk r else jeoc3_msk r)"

section \<open>Power sequencing\<close>

text \<open>
  The calls into the regulator, regmap and clock providers, and the sleep. The
  providers are outside the driver: \<open>env\<close> gives the value each call returns, from the
  calls made before it and the call itself. A state of the outside world is the list
  of calls made so far, oldest first.
\<close>

datatype call =
    Regulator_enable regulator
  | Regulator_disable regulator
  | Regulator_get_voltage regulator
  | Regmap_update_bits regmap u32 u32 u32
  | Regmap_write regmap u32 u32
  | Clk_prepare_enable clk
  | Clk_disable_unprepare clk
  | Usleep_range nat nat

type_synonym env = "call list \<Rightarrow> call \<Rightarrow> int"

definition do_call :: "env \<Rightarrow> call \<Rightarrow> call list \<Rightarrow> int \<times> call list" where
  "do_call env c tr = (env tr c, tr @ [c])"

text \<open>
  The settings chosen from the two voltages in \<^verbatim>\<open>stm32_adc_switches_supply_en\<close>:
  the values of \<^verbatim>\<open>anaswvdd\<close> and \<^verbatim>\<open>en_booster\<close> after the \<^verbatim>\<open>if\<close> on \<^verbatim>\<open>vdda\<close>.
\<close>

definition switches_supply_settings :: "stm32_adc_priv \<Rightarrow> int \<Rightarrow> int \<Rightarrow> u32 \<times> u32" where
  "switches_supply_settings priv vdda_uv vdd_uv =
     (if vdda_uv > 2700000 then (0, 0)
      else if vdd_uv < 2700000 then (0, mask_bits (vbooster priv))
      else (mask_bits (anaswvdd priv), 0))"

text \<open>
  "Direct write value (or use clear register)": the call that sets cell \<open>c\<close>, with
  register map \<open>rm\<close>, to \<open>v\<close>, where \<open>c_clr\<close> is its clear cell.
\<close>

definition syscfg_apply :: "stm32_adc_syscfg \<Rightarrow> stm32_adc_syscfg \<Rightarrow> regmap \<Rightarrow> u32 \<Rightarrow> call" where
  "syscfg_apply c c_clr rm v =
     (case regmap c_clr of
        None \<Rightarrow> Regmap_update_bits rm (reg c) (mask_bits c) v
      | Some rm_clr \<Rightarrow>
          if v \<noteq> 0 then Regmap_update_bits rm (reg c) (mask_bits c) v
          else Regmap_write rm_clr (reg c_clr) (mask_bits c_clr))"

text \<open>The call that clears cell \<open>c\<close> on the error and disable paths.\<close>

definition syscfg_clear :: "stm32_adc_syscfg \<Rightarrow> stm32_adc_syscfg \<Rightarrow> regmap \<Rightarrow> call" where
  "syscfg_clear c c_clr rm =
     (case regmap c_clr of
        None \<Rightarrow> Regmap_update_bits rm (reg c) (mask_bits c) 0
      | Some rm_clr \<Rightarrow> Regmap_write rm_clr (reg c_clr) (mask_bits c_clr))"

text \<open>
  The labels \<^verbatim>\<open>vdda_dis\<close>, \<^verbatim>\<open>vdd_dis\<close> and \<^verbatim>\<open>booster_dis\<close> of
  \<^verbatim>\<open>stm32_adc_switches_supply_en\<close>, each falling through to the next; \<open>va\<close> and \<open>vb\<close>
  are the regulator \<^verbatim>\<open>priv->vdda\<close> and the register map \<^verbatim>\<open>priv->vbooster.regmap\<close>.
  The values their calls return are not read.
\<close>

definition vdda_dis :: "regulator \<Rightarrow> call list" where
  "vdda_dis va = [Regulator_disable va]"

definition vdd_dis :: "stm32_adc_priv \<Rightarrow> regulator \<Rightarrow> call list" where
  "vdd_dis priv va =
     (case (vdd priv, regmap (anaswvdd priv)) of
        (Some vd, Some an) \<Rightarrow> [Regulator_disable vd]
      | _ \<Rightarrow> []) @ vdda_dis va"

definition booster_dis :: "stm32_adc_priv \<Rightarrow> regulator \<Rightarrow> regmap \<Rightarrow> call list" where
  "booster_dis priv va vb =
     syscfg_clear (vbooster priv) (vbooster_clr priv) vb # vdd_dis priv va"

text \<open>\<^verbatim>\<open>stm32_adc_switches_supply_en\<close> from the write of the booster setting on.\<close>

definition switches_supply_en_apply ::
  "env \<Rightarrow> stm32_adc_priv \<Rightarrow> regulator \<Rightarrow> regmap \<Rightarrow> int \<Rightarrow> int \<Rightarrow> call list
     \<Rightarrow> int \<times> call list" where
  "switches_supply_en_apply env priv va vb vdda_uv vdd_uv tr =
     (let (anaswvdd_val, en_booster) = switches_supply_settings priv vdda_uv vdd_uv;
          (ret, tr) = do_call env
             (syscfg_apply (vbooster priv) (vbooster_clr priv) vb en_booster) tr
      in if ret \<noteq> 0 then (ret, tr @ vdd_dis priv va)
         else
           (let tr = (if en_booster \<noteq> 0 then tr @ [Usleep_range 50 100] else tr)
            in case regmap (anaswvdd priv) of
                 Some an \<Rightarrow>
                   (let (ret, tr) = do_call env
                          (syscfg_apply (anaswvdd priv) (anaswvdd_clr priv) an
                             anaswvdd_val) tr
                    in if ret \<noteq> 0 then (ret, tr @ booster_dis priv va vb)
                       else (ret, tr))
               | None \<Rightarrow> (ret, tr)))"

text \<open>\<^verbatim>\<open>stm32_adc_switches_supply_en\<close> from the test on \<^verbatim>\<open>priv->vdd\<close> on.\<close>

definition switches_supply_en_vdd ::
  "env \<Rightarrow> stm32_adc_priv \<Rightarrow> regulator \<Rightarrow> regmap \<Rightarrow> int \<Rightarrow> call list
     \<Rightarrow> int \<times> call list" where
  "switches_supply_en_vdd env priv va vb vdda_uv tr =
     (case (vdd priv, regmap (anaswvdd priv)) of
        (Some vd, Some an) \<Rightarrow>
          (let (ret, tr) = do_call env (Regulator_enable vd) tr
           in if ret < 0 then (ret, tr @ vdda_dis va)
              else
                (let (ret, tr) = do_call env (Regulator_get_voltage vd) tr
                 in if ret < 0 then (ret, tr @ vdd_dis priv va)
                    else switches_supply_en_apply env priv va vb vdda_uv ret tr))
      | _ \<Rightarrow> switches_supply_en_apply env priv va vb vdda_uv 0 tr)"

definition stm32_adc_switches_supply_en ::
  "env \<Rightarrow> stm32_adc_priv \<Rightarrow> call list \<Rightarrow> int \<times> call list" where
  "stm32_adc_switches_supply_en env priv tr =
     (case (vdda priv, regmap (vbooster priv)) of
        (Some va, Some vb) \<Rightarrow>
          (let (ret, tr) = do_call env (Regulator_enable va) tr
           in if ret < 0 then (ret, tr)
              else
                (let (ret, tr) = do_call env (Regulator_get_voltage va) tr
                 in if ret < 0 then (ret, tr @ vdda_dis va)
                    else switches_supply_en_vdd env priv va vb ret tr))
      | _ \<Rightarrow> (0, tr))"

definition stm32_adc_switches_supply_dis :: "stm32_adc_priv \<Rightarrow> call list \<Rightarrow> call list" where
  "stm32_adc_switches_supply_dis priv tr =
     (case (vdda priv, regmap (vbooster priv)) of
        (Some va, Some vb) \<Rightarrow>
          tr
          @ (case regmap (anaswvdd priv) of
               Some an \<Rightarrow> [syscfg_clear (anaswvdd priv) (anaswvdd_clr priv) an]
             | None \<Rightarrow> [])
          @ [syscfg_clear (vbooster priv) (vbooster_clr priv) vb]
          @ (case (vdd priv, regmap (anaswvdd priv)) of
               (Some vd, Some an) \<Rightarrow> [Regulator_disable vd]
             | _ \<Rightarrow> [])
          @ [Regulator_disable va]
      | _ \<Rightarrow> tr)"

text \<open>
  The labels \<^verbatim>\<open>err_switches_disable\<close>, \<^verbatim>\<open>err_regulator_disable\<close> and
  \<^verbatim>\<open>err_bclk_disable\<close> of \<^verbatim>\<open>stm32_adc_core_hw_start\<close>, each falling through to the
  next.
\<close>

definition err_switches_disable :: "stm32_adc_priv \<Rightarrow> call list \<Rightarrow> call list" where
  "err_switches_disable priv tr = stm32_adc_switches_supply_dis priv tr"

definition err_regulator_disable :: "stm32_adc_priv \<Rightarrow> call list \<Rightarrow> call list" where
  "err_regulator_disable priv tr =
     err_switches_disable priv (tr @ [Regulator_disable (vref priv)])"

definition err_bclk_disable :: "stm32_adc_priv \<Rightarrow> call list \<Rightarrow> call list" where
  "err_bclk_disable priv tr =
     err_regulator_disable priv
       (case bclk priv of Some b \<Rightarrow> tr @ [Clk_disable_unprepare b] | None \<Rightarrow> tr)"

text \<open>\<^verbatim>\<open>stm32_adc_core_hw_start\<close> from the test on \<^verbatim>\<open>priv->aclk\<close> on.\<close>

definition hw_start_aclk ::
  "env \<Rightarrow> stm32_adc_priv \<Rightarrow> call list \<Rightarrow> iomem \<Rightarrow> int \<times> call list \<times> iomem" where
  "hw_start_aclk env priv tr io =
     (let wr = io (unat (ccr (regs (cfg priv))) := ccr_bak priv)
      in case aclk priv of
           Some a \<Rightarrow>
             (let (ret, tr) = do_call env (Clk_prepare_enable a) tr
              in if ret < 0 then (ret, err_bclk_disable priv tr, io)
                 else (0, tr, wr))
         | None \<Rightarrow> (0, tr, wr))"

definition stm32_adc_core_hw_start ::
  "env \<Rightarrow> stm32_adc_priv \<Rightarrow> call list \<Rightarrow> iomem \<Rightarrow> int \<times> call list \<times> iomem" where
  "stm32_adc_core_hw_start env priv tr io =
     (let (ret, tr) = stm32_adc_switches_supply_en env priv tr
      in if ret < 0 then (ret, tr, io)
         else
           (let (ret, tr) = do_call env (Regulator_enable (vref priv)) tr
            in if ret < 0 then (ret, err_switches_disable priv tr, io)
               else
                 (case bclk priv of
                    Some b \<Rightarrow>
                      (let (ret, tr) = do_call env (Clk_prepare_enable b) tr
                       in if ret < 0 then (ret, err_regulator_disable priv tr, io)
                          else hw_start_aclk env priv tr io)
                  | None \<Rightarrow> hw_start_aclk env priv tr io)))"

text \<open>\<^verbatim>\<open>stm32_adc_core_hw_stop\<close> writes \<^verbatim>\<open>priv->ccr_bak\<close> and returns nothing.\<close>

definition stm32_adc_core_hw_stop ::
  "stm32_adc_priv \<Rightarrow> call list \<Rightarrow> iomem \<Rightarrow> stm32_adc_priv \<times> call list" where
  "stm32_adc_core_hw_stop priv tr io =
     (let priv = priv\<lparr>ccr_bak := io (unat (ccr (regs (cfg priv))))\<rparr>;
          tr = (case aclk priv of Some a \<Rightarrow> tr @ [Clk_disable_unprepare a] | None \<Rightarrow> tr);
          tr = (case bclk priv of Some b \<Rightarrow> tr @ [Clk_disable_unprepare b] | None \<Rightarrow> tr);
          tr = tr @ [Regulator_disable (vref priv)]
      in (priv, stm32_adc_switches_supply_dis priv tr))"

section \<open>Notions used to state the properties\<close>

text \<open>
  The rate that a table entry of the H7 selector divides: the rate of the analog
  clock for an asynchronous entry (\<^verbatim>\<open>ckmode\<close> 0), of the bus clock for a synchronous
  one.
\<close>

definition h7_source_rate ::
  "(clk \<Rightarrow> nat) \<Rightarrow> stm32_adc_priv \<Rightarrow> stm32h7_adc_ck_spec \<Rightarrow> nat option" where
  "h7_source_rate get_rate priv s =
     map_option get_rate (if ckmode s = 0 then aclk priv else bclk priv)"

text \<open>Entry \<open>t\<close> is in the same half of the table as \<open>s\<close> and has a smaller divider.\<close>

definition same_mode_smaller :: "stm32h7_adc_ck_spec \<Rightarrow> stm32h7_adc_ck_spec \<Rightarrow> bool" where
  "same_mode_smaller t s \<longleftrightarrow> (ckmode t = 0) = (ckmode s = 0) \<and> ck_div t < ck_div s"

text \<open>
  What a selection gives its callers: the error, or the rate it publishes together
  with the clock fields of the control register after its write.
\<close>

definition f4_plan ::
  "stm32_adc_core_h \<Rightarrow> errno + (stm32_adc_priv \<times> iomem) \<Rightarrow> errno + (nat \<times> u32)" where
  "f4_plan h res =
     map_sum id (\<lambda>(p, io). (common_rate p,
        io (unat (STM32F4_ADC_CCR h)) AND STM32F4_ADC_ADCPRE_MASK)) res"

definition h7_plan ::
  "stm32_adc_core_h \<Rightarrow> errno + (stm32_adc_priv \<times> iomem) \<Rightarrow> errno + (nat \<times> u32)" where
  "h7_plan h res =
     map_sum id (\<lambda>(p, io). (common_rate p,
        io (unat (STM32H7_ADC_CCR h)) AND (STM32H7_CKMODE_MASK OR STM32H7_PRESC_MASK))) res"

section \<open>Concrete inputs\<close>

text \<open>
  Values for the constants of the header, a clock provider under which the clock
  with handle \<open>n\<close> runs at \<open>n\<close> MHz, and a device with an 80 MHz analog clock, a
  30 MHz bus clock, no analog-switch supply and the F4 configuration.
\<close>

definition hdr_example :: stm32_adc_core_h where
  "hdr_example =
     \<lparr>STM32_ADC_OFFSET = 0x100, STM32_ADCX_COMN_OFFSET = 0x300,
      STM32F4_ADC_CR1 = 0x04, STM32F4_ADC_CCR = 0x304, STM32F4_EOCIE = BIT 5,
      STM32H7_ADC_IER = 0x04, STM32H7_ADC_CCR = 0x308, STM32H7_EOCIE = BIT 2\<rparr>"

definition rate_example :: "clk \<Rightarrow> nat" where
  "rate_example c = c * 1000000"

definition syscfg_absent :: stm32_adc_syscfg where
  "syscfg_absent = \<lparr>regmap = None, reg = 0, mask_bits = 0\<rparr>"

definition cfg_f4_example :: stm32_adc_priv_cfg where
  "cfg_f4_example = stm32f4_adc_priv_cfg hdr_example"

definition priv_example :: stm32_adc_priv where
  "priv_example =
     \<lparr>aclk = Some 80, bclk = Some 30, max_clk_rate = 36000000,
      vdd = None, vdda = None, vref = 1, cfg = cfg_f4_example,
      common_rate = 0, ccr_bak = 0,
      vbooster = syscfg_absent, vbooster_clr = syscfg_absent,
      anaswvdd = syscfg_absent, anaswvdd_clr = syscfg_absent\<rparr>"

definition io_zero :: iomem where
  "io_zero a = 0"

text \<open>
  The same device with both switch regulators and all four syscon cells: booster
  bit 8 and switch-select bit 9 of the set register \<open>0x20\<close>, cleared through the
  register \<open>0x44\<close>.
\<close>

definition priv_power_example :: stm32_adc_priv where
  "priv_power_example =
     priv_example
       \<lparr>vdd := Some 11, vdda := Some 10,
        vbooster := \<lparr>regmap = Some 20, reg = 0x20, mask_bits = 0x100\<rparr>,
        vbooster_clr := \<lparr>regmap = Some 20, reg = 0x44, mask_bits = 0x100\<rparr>,
        anaswvdd := \<lparr>regmap = Some 20, reg = 0x20, mask_bits = 0x200\<rparr>,
        anaswvdd_clr := \<lparr>regmap = Some 20, reg = 0x44, mask_bits = 0x200\<rparr>\<rparr>"

text \<open>
  Register windows in which the status register (offset \<open>0x300\<close>) reads \<open>v\<close> and
  every other register reads 0 (all interrupt-enable bits clear), or all ones (all
  interrupt-enable bits set).
\<close>

definition io_status :: "u32 \<Rightarrow> iomem" where
  "io_status v a = (if a = 768 then v else 0)"

definition io_status_enabled :: "u32 \<Rightarrow> iomem" where
  "io_status_enabled v a = (if a = 768 then v else 0xFFFFFFFF)"

text \<open>
  Providers under which regulator 10 measures \<open>a\<close> microvolts and every other
  regulator \<open>d\<close>, enabling clock 30 returns \<open>e\<close>, every \<^verbatim>\<open>regulator_disable\<close> returns
  the error \<open>-5\<close>, and every other call returns 0.
\<close>

fun env_example :: "int \<Rightarrow> int \<Rightarrow> int \<Rightarrow> env" where
  "env_example a d e tr (Regulator_get_voltage r) = (if r = 10 then a else d)"
| "env_example a d e tr (Clk_prepare_enable c) = (if c = 30 then e else 0)"
| "env_example a d e tr (Regulator_disable r) = - 5"
| "env_example a d e tr c = 0"

section \<open>Clock selection: properties\<close>

lemma f4_scan_range:
  "i \<le> stm32f4_scan rate m ds i \<and> stm32f4_scan rate m ds i \<le> i + length ds"
proof (induction ds arbitrary: i)
  case Nil
  then show ?case by simp
next
  case (Cons d ds)
  from Cons [of "Suc i"] show ?case by auto
qed

lemma f4_scan_hit:
  "stm32f4_scan rate m ds i < i + length ds \<Longrightarrow>
     rate div nat (ds ! (stm32f4_scan rate m ds i - i)) \<le> unat m"
proof (induction ds arbitrary: i)
  case Nil
  then show ?case by simp
next
  case (Cons d ds)
  show ?case
  proof (cases "rate div nat d \<le> unat m")
    case True
    then show ?thesis by simp
  next
    case False
    have "Suc i \<le> stm32f4_scan rate m ds (Suc i)"
      using f4_scan_range by blast
    then have "stm32f4_scan rate m ds (Suc i) - i
                 = Suc (stm32f4_scan rate m ds (Suc i) - Suc i)"
      by simp
    with False Cons.IH [of "Suc i"] Cons.prems show ?thesis by simp
  qed
qed

lemma f4_scan_miss:
  "j < stm32f4_scan rate m ds i - i \<Longrightarrow> j < length ds \<Longrightarrow>
     \<not> rate div nat (ds ! j) \<le> unat m"
proof (induction ds arbitrary: i j)
  case Nil
  then show ?case by simp
next
  case (Cons d ds)
  show ?case
  proof (cases "rate div nat d \<le> unat m")
    case True
    with Cons.prems show ?thesis by simp
  next
    case False
    show ?thesis
    proof (cases j)
      case 0
      with False show ?thesis by simp
    next
      case (Suc j')
      have "Suc i \<le> stm32f4_scan rate m ds (Suc i)"
        using f4_scan_range by blast
      with Cons.prems False Suc
      have "j' < stm32f4_scan rate m ds (Suc i) - Suc i" "j' < length ds"
        by auto
      from Cons.IH [OF this] Suc show ?thesis by simp
    qed
  qed
qed

lemma f4_smaller_is_earlier:
  "i < 4 \<Longrightarrow> d' \<in> set stm32f4_pclk_div \<Longrightarrow> d' < stm32f4_pclk_div ! i \<Longrightarrow>
     \<exists>j < i. stm32f4_pclk_div ! j = d'"
  unfolding stm32f4_pclk_div_def
  by (auto simp: less_Suc_eq numeral_eq_Suc)

lemma clk_sel_f4_part:
  assumes "stm32f4_adc_clk_sel h get_rate priv io = Inr (priv', io')"
  shows "\<exists>a i. aclk priv = Some a \<and> 0 < get_rate a \<and> i < length stm32f4_pclk_div
           \<and> get_rate a div nat (stm32f4_pclk_div ! i) \<le> unat (max_clk_rate priv)
           \<and> (\<forall>d' \<in> set stm32f4_pclk_div. d' < stm32f4_pclk_div ! i \<longrightarrow>
                  unat (max_clk_rate priv) < get_rate a div nat d')
           \<and> common_rate priv' = get_rate a div nat (stm32f4_pclk_div ! i)
           \<and> io' (unat (STM32F4_ADC_CCR h)) =
                 (io (unat (STM32F4_ADC_CCR h)) AND NOT STM32F4_ADC_ADCPRE_MASK)
                   OR push_bit 16 (of_nat i)"
proof -
  from assms obtain a where a: "aclk priv = Some a" "0 < get_rate a"
    by (auto simp: stm32f4_adc_clk_sel_def Let_def split: option.splits if_splits)
  define i where "i = stm32f4_scan (get_rate a) (max_clk_rate priv) stm32f4_pclk_div 0"
  from assms a have i: "i < length stm32f4_pclk_div"
    and r: "priv' = priv\<lparr>common_rate := get_rate a div nat (stm32f4_pclk_div ! i)\<rparr>"
    and w: "io' = io (unat (STM32F4_ADC_CCR h) :=
              (io (unat (STM32F4_ADC_CCR h)) AND NOT STM32F4_ADC_ADCPRE_MASK)
                OR push_bit STM32F4_ADC_ADCPRE_SHIFT (of_nat i))"
    by (auto simp: stm32f4_adc_clk_sel_def Let_def i_def split: if_splits)
  have hit: "get_rate a div nat (stm32f4_pclk_div ! i) \<le> unat (max_clk_rate priv)"
    using f4_scan_hit [of "get_rate a" "max_clk_rate priv" stm32f4_pclk_div 0] i
    by (simp add: i_def)
  have miss: "unat (max_clk_rate priv) < get_rate a div nat d'"
    if "d' \<in> set stm32f4_pclk_div" "d' < stm32f4_pclk_div ! i" for d'
  proof -
    from i have "i < 4" by (simp add: stm32f4_pclk_div_def)
    from f4_smaller_is_earlier [OF this that]
    obtain j where j: "j < i" "stm32f4_pclk_div ! j = d'"
      by blast
    with i f4_scan_miss [of j "get_rate a" "max_clk_rate priv" stm32f4_pclk_div 0]
    show ?thesis by (simp add: i_def not_le)
  qed
  from a i hit miss r w show ?thesis
    by (intro exI [of _ a] exI [of _ i]) (simp add: STM32F4_ADC_ADCPRE_SHIFT_def)
qed

lemma scan_async_find:
  "stm32h7_scan_async rate m tbl =
     find (\<lambda>s. ckmode s = 0 \<and> rate div nat (ck_div s) \<le> unat m) tbl"
  by (induction tbl) auto

lemma scan_sync_find:
  "stm32h7_scan_sync rate m tbl =
     find (\<lambda>s. ckmode s \<noteq> 0 \<and> rate div nat (ck_div s) \<le> unat m) tbl"
  by (induction tbl) auto

lemma ckmodes_sorted:
  "sorted_wrt (\<lambda>a b. \<not> same_mode_smaller b a) stm32h7_adc_ckmodes_spec"
  by (simp add: stm32h7_adc_ckmodes_spec_def ck_spec_def same_mode_smaller_def)

lemma sorted_wrt_earlier:
  assumes "sorted_wrt R xs" "i < length xs" "t \<in> set xs" "\<not> R (xs ! i) t" "t \<noteq> xs ! i"
  shows "\<exists>j < i. xs ! j = t"
proof -
  from assms(3) obtain k where k: "k < length xs" "xs ! k = t"
    by (auto simp: in_set_conv_nth)
  have "k < i"
  proof (rule ccontr)
    assume "\<not> k < i"
    with assms(5) k have "i < k" by (cases "k = i") auto
    from sorted_wrt_nth_less [OF assms(1) this k(1)] assms(4) k(2) show False by simp
  qed
  with k show ?thesis by blast
qed

lemma find_first:
  assumes "find P xs = Some s"
  shows "\<exists>i < length xs. xs ! i = s \<and> P s \<and> (\<forall>j < i. \<not> P (xs ! j))"
  using assms by (auto simp: find_Some_iff)

lemma h7_minimal:
  assumes f: "find P stm32h7_adc_ckmodes_spec = Some s"
    and t: "t \<in> set stm32h7_adc_ckmodes_spec" "same_mode_smaller t s"
  shows "\<not> P t"
proof -
  from find_first [OF f] obtain i where i: "i < length stm32h7_adc_ckmodes_spec"
    "stm32h7_adc_ckmodes_spec ! i = s" "\<forall>j < i. \<not> P (stm32h7_adc_ckmodes_spec ! j)"
    by blast
  from t(2) have "t \<noteq> s" by (auto simp: same_mode_smaller_def)
  with sorted_wrt_earlier [OF ckmodes_sorted i(1) t(1)] i(2) t(2)
  obtain j where "j < i" "stm32h7_adc_ckmodes_spec ! j = t" by auto
  with i(3) show ?thesis by auto
qed

lemma h7_sync_Inr:
  assumes "stm32h7_clk_sel_sync h get_rate priv io b = Inr res"
  shows "\<exists>s. find (\<lambda>s. ckmode s \<noteq> 0
                    \<and> get_rate b div nat (ck_div s) \<le> unat (max_clk_rate priv))
               stm32h7_adc_ckmodes_spec = Some s
           \<and> 0 < get_rate b \<and> res = stm32h7_clk_sel_out h priv io (get_rate b) s"
  using assms
  by (auto simp: stm32h7_clk_sel_sync_def Let_def scan_sync_find
           split: if_splits option.splits)

lemma h7_Inr:
  assumes "stm32h7_adc_clk_sel h get_rate priv io = Inr res"
  shows "(\<exists>a s. aclk priv = Some a \<and> 0 < get_rate a
            \<and> find (\<lambda>s. ckmode s = 0
                     \<and> get_rate a div nat (ck_div s) \<le> unat (max_clk_rate priv))
                 stm32h7_adc_ckmodes_spec = Some s
            \<and> res = stm32h7_clk_sel_out h priv io (get_rate a) s)
       \<or> (\<exists>b s. bclk priv = Some b \<and> 0 < get_rate b
            \<and> find (\<lambda>s. ckmode s \<noteq> 0
                     \<and> get_rate b div nat (ck_div s) \<le> unat (max_clk_rate priv))
                 stm32h7_adc_ckmodes_spec = Some s
            \<and> res = stm32h7_clk_sel_out h priv io (get_rate b) s)"
proof -
  from assms obtain b where b: "bclk priv = Some b"
    by (auto simp: stm32h7_adc_clk_sel_def split: option.splits)
  show ?thesis
  proof (cases "stm32h7_adc_clk_sel h get_rate priv io
                  = stm32h7_clk_sel_sync h get_rate priv io b")
    case True
    with assms h7_sync_Inr [of h get_rate priv io b res] b show ?thesis by auto
  next
    case False
    with assms b show ?thesis
      by (auto simp: stm32h7_adc_clk_sel_def Let_def scan_async_find
               split: if_splits option.splits)
  qed
qed

lemma h7_out_fields:
  "stm32h7_clk_sel_out h priv io rate s = (priv', io') \<Longrightarrow>
     common_rate priv' = rate div nat (ck_div s) \<and>
     io' (unat (STM32H7_ADC_CCR h)) =
       (io (unat (STM32H7_ADC_CCR h)) AND NOT (STM32H7_CKMODE_MASK OR STM32H7_PRESC_MASK))
         OR push_bit 16 (ckmode s) OR push_bit 18 (presc s)"
  by (auto simp: stm32h7_clk_sel_out_def Let_def STM32H7_CKMODE_SHIFT_def
                 STM32H7_PRESC_SHIFT_def or.assoc)

lemma clk_sel_h7_part:
  assumes "stm32h7_adc_clk_sel h get_rate priv io = Inr (priv', io')"
  shows "\<exists>s rate. s \<in> set stm32h7_adc_ckmodes_spec
           \<and> h7_source_rate get_rate priv s = Some rate \<and> 0 < rate
           \<and> rate div nat (ck_div s) \<le> unat (max_clk_rate priv)
           \<and> (\<forall>t \<in> set stm32h7_adc_ckmodes_spec. same_mode_smaller t s \<longrightarrow>
                  unat (max_clk_rate priv) < rate div nat (ck_div t))
           \<and> common_rate priv' = rate div nat (ck_div s)
           \<and> io' (unat (STM32H7_ADC_CCR h)) =
               (io (unat (STM32H7_ADC_CCR h))
                  AND NOT (STM32H7_CKMODE_MASK OR STM32H7_PRESC_MASK))
                 OR push_bit 16 (ckmode s) OR push_bit 18 (presc s)"
proof -
  from h7_Inr [OF assms] consider
    (async) a s where "aclk priv = Some a" "0 < get_rate a"
      "find (\<lambda>s. ckmode s = 0 \<and> get_rate a div nat (ck_div s) \<le> unat (max_clk_rate priv))
         stm32h7_adc_ckmodes_spec = Some s"
      "(priv', io') = stm32h7_clk_sel_out h priv io (get_rate a) s"
  | (sync) b s where "bclk priv = Some b" "0 < get_rate b"
      "find (\<lambda>s. ckmode s \<noteq> 0 \<and> get_rate b div nat (ck_div s) \<le> unat (max_clk_rate priv))
         stm32h7_adc_ckmodes_spec = Some s"
      "(priv', io') = stm32h7_clk_sel_out h priv io (get_rate b) s"
    by blast
  then show ?thesis
  proof cases
    case async
    from find_first [OF async(3)]
    have s: "s \<in> set stm32h7_adc_ckmodes_spec" "ckmode s = 0"
      "get_rate a div nat (ck_div s) \<le> unat (max_clk_rate priv)"
      by auto
    have "unat (max_clk_rate priv) < get_rate a div nat (ck_div t)"
      if "t \<in> set stm32h7_adc_ckmodes_spec" "same_mode_smaller t s" for t
      using h7_minimal [OF async(3) that] that(2) s(2)
      by (simp add: same_mode_smaller_def not_le)
    with s async(1,2) h7_out_fields [OF async(4) [symmetric]] show ?thesis
      by (intro exI [of _ s] exI [of _ "get_rate a"]) (simp add: h7_source_rate_def)
  next
    case sync
    from find_first [OF sync(3)]
    have s: "s \<in> set stm32h7_adc_ckmodes_spec" "ckmode s \<noteq> 0"
      "get_rate b div nat (ck_div s) \<le> unat (max_clk_rate priv)"
      by auto
    have "unat (max_clk_rate priv) < get_rate b div nat (ck_div t)"
      if "t \<in> set stm32h7_adc_ckmodes_spec" "same_mode_smaller t s" for t
      using h7_minimal [OF sync(3) that] that(2) s(2)
      by (simp add: same_mode_smaller_def not_le)
    with s sync(1,2) h7_out_fields [OF sync(4) [symmetric]] show ?thesis
      by (intro exI [of _ s] exI [of _ "get_rate b"]) (simp add: h7_source_rate_def)
  qed
qed

lemma field_of_rmw: "(((v::u32) AND NOT m) OR x) AND m = x AND m"
  by (rule bit_eqI) (auto simp: bit_simps)

lemma f4_deterministic:
  assumes "map_option gr1 (aclk p1) = map_option gr2 (aclk p2)"
    and "max_clk_rate p1 = max_clk_rate p2"
  shows "f4_plan h (stm32f4_adc_clk_sel h gr1 p1 io1)
           = f4_plan h (stm32f4_adc_clk_sel h gr2 p2 io2)"
proof (cases "aclk p1")
  case None
  with assms(1) have "aclk p2 = None" by simp
  with None show ?thesis by (simp add: stm32f4_adc_clk_sel_def)
next
  case (Some a1)
  with assms(1) obtain a2 where "aclk p2 = Some a2" "gr1 a1 = gr2 a2"
    by (cases "aclk p2") auto
  with Some assms(2) show ?thesis
    by (simp add: f4_plan_def stm32f4_adc_clk_sel_def Let_def field_of_rmw)
qed

lemma h7_out_plan:
  "h7_plan h (Inr (stm32h7_clk_sel_out h p1 io1 rate s))
     = h7_plan h (Inr (stm32h7_clk_sel_out h p2 io2 rate s))"
  by (simp add: h7_plan_def stm32h7_clk_sel_out_def Let_def, rule bit_eqI)
     (auto simp: bit_simps)

lemma h7_sync_deterministic:
  assumes "gr1 b1 = gr2 b2"
    and "max_clk_rate p1 = max_clk_rate p2"
  shows "h7_plan h (stm32h7_clk_sel_sync h gr1 p1 io1 b1)
           = h7_plan h (stm32h7_clk_sel_sync h gr2 p2 io2 b2)"
proof (cases "stm32h7_scan_sync (gr2 b2) (max_clk_rate p2) stm32h7_adc_ckmodes_spec")
  case None
  with assms show ?thesis by (simp add: stm32h7_clk_sel_sync_def Let_def)
next
  case (Some s)
  with assms h7_out_plan [of h p1 io1 "gr2 b2" s p2 io2] show ?thesis
    by (simp add: stm32h7_clk_sel_sync_def Let_def)
qed

lemma h7_deterministic:
  assumes "map_option gr1 (aclk p1) = map_option gr2 (aclk p2)"
    and "map_option gr1 (bclk p1) = map_option gr2 (bclk p2)"
    and "max_clk_rate p1 = max_clk_rate p2"
  shows "h7_plan h (stm32h7_adc_clk_sel h gr1 p1 io1)
           = h7_plan h (stm32h7_adc_clk_sel h gr2 p2 io2)"
proof (cases "bclk p1")
  case None
  with assms(2) have "bclk p2 = None" by simp
  with None show ?thesis by (simp add: stm32h7_adc_clk_sel_def)
next
  case (Some b1)
  with assms(2) obtain b2 where b2: "bclk p2 = Some b2" "gr1 b1 = gr2 b2"
    by (cases "bclk p2") auto
  from b2(2) assms(3)
  have sync: "h7_plan h (stm32h7_clk_sel_sync h gr1 p1 io1 b1)
                = h7_plan h (stm32h7_clk_sel_sync h gr2 p2 io2 b2)"
    by (rule h7_sync_deterministic)
  show ?thesis
  proof (cases "aclk p1")
    case None
    with assms(1) have "aclk p2 = None" by simp
    with None Some b2 sync show ?thesis by (simp add: stm32h7_adc_clk_sel_def)
  next
    case a1: (Some a1)
    with assms(1) obtain a2 where a2: "aclk p2 = Some a2" "gr1 a1 = gr2 a2"
      by (cases "aclk p2") auto
    show ?thesis
    proof (cases "stm32h7_scan_async (gr2 a2) (max_clk_rate p2) stm32h7_adc_ckmodes_spec")
      case None
      with a1 a2 Some b2 sync assms(3) show ?thesis
        by (simp add: stm32h7_adc_clk_sel_def Let_def)
    next
      case s: (Some s)
      with a1 a2 Some b2 assms(3) h7_out_plan [of h p1 io1 "gr2 a2" s p2 io2]
      show ?thesis
        by (simp add: stm32h7_adc_clk_sel_def Let_def)
    qed
  qed
qed

lemma f4_example_run:
  "stm32f4_adc_clk_sel hdr_example rate_example priv_example io_zero =
     Inr (priv_example\<lparr>common_rate := 20000000\<rparr>, io_zero (772 := 65536))"
  by (simp add: stm32f4_adc_clk_sel_def priv_example_def rate_example_def
      stm32f4_pclk_div_def hdr_example_def io_zero_def STM32F4_ADC_ADCPRE_MASK_def
      STM32F4_ADC_ADCPRE_SHIFT_def BIT_def)

lemma h7_example_run:
  "stm32h7_adc_clk_sel hdr_example rate_example priv_example io_zero =
     Inr (priv_example\<lparr>common_rate := 20000000\<rparr>, io_zero (776 := 524288))"
  by (simp add: stm32h7_adc_clk_sel_def stm32h7_clk_sel_out_def priv_example_def
      rate_example_def stm32h7_adc_ckmodes_spec_def ck_spec_def hdr_example_def
      io_zero_def STM32H7_CKMODE_MASK_def STM32H7_PRESC_MASK_def
      STM32H7_CKMODE_SHIFT_def STM32H7_PRESC_SHIFT_def BIT_def)

text \<open>
  Claim C3. Whenever a clock selector succeeds, the divider it chose brings the rate
  of its clock source down to at most \<^verbatim>\<open>priv->max_clk_rate\<close>, every smaller divider of
  the table it took the divider from leaves the rate above the bound, and the rate it
  publishes in \<^verbatim>\<open>priv->common.rate\<close> is the source rate divided by the chosen divider.
  For the F4 selector the table is \<open>[2, 4, 6, 8]\<close> and the source is the analog clock;
  the index of the divider goes into the prescaler field of the control register. For
  the H7 selector the table is the asynchronous half (source: analog clock) or the
  synchronous half (source: bus clock) of \<open>stm32h7_adc_ckmodes_spec\<close>, and the mode and
  prescaler code of the chosen entry go into the control register. The selection is
  deterministic: the error, or the published rate and the clock fields written to the
  control register, depend on nothing but the presence and the rates of the clocks and
  the bound; two devices that agree on these get the same plan, whatever their other
  fields and registers hold.
\<close>

theorem clk_sel_smallest_divider:
  "(stm32f4_adc_clk_sel h get_rate priv io = Inr (priv', io') \<longrightarrow>
      (\<exists>a i. aclk priv = Some a \<and> 0 < get_rate a \<and> i < length stm32f4_pclk_div
         \<and> get_rate a div nat (stm32f4_pclk_div ! i) \<le> unat (max_clk_rate priv)
         \<and> (\<forall>d' \<in> set stm32f4_pclk_div. d' < stm32f4_pclk_div ! i \<longrightarrow>
                unat (max_clk_rate priv) < get_rate a div nat d')
         \<and> common_rate priv' = get_rate a div nat (stm32f4_pclk_div ! i)
         \<and> io' (unat (STM32F4_ADC_CCR h)) =
               (io (unat (STM32F4_ADC_CCR h)) AND NOT STM32F4_ADC_ADCPRE_MASK)
                 OR push_bit 16 (of_nat i)))
   \<and> (stm32h7_adc_clk_sel h get_rate priv io = Inr (priv'', io'') \<longrightarrow>
      (\<exists>s rate. s \<in> set stm32h7_adc_ckmodes_spec
         \<and> h7_source_rate get_rate priv s = Some rate \<and> 0 < rate
         \<and> rate div nat (ck_div s) \<le> unat (max_clk_rate priv)
         \<and> (\<forall>t \<in> set stm32h7_adc_ckmodes_spec. same_mode_smaller t s \<longrightarrow>
                unat (max_clk_rate priv) < rate div nat (ck_div t))
         \<and> common_rate priv'' = rate div nat (ck_div s)
         \<and> io'' (unat (STM32H7_ADC_CCR h)) =
             (io (unat (STM32H7_ADC_CCR h))
                AND NOT (STM32H7_CKMODE_MASK OR STM32H7_PRESC_MASK))
               OR push_bit 16 (ckmode s) OR push_bit 18 (presc s)))
   \<and> (map_option gr1 (aclk p1) = map_option gr2 (aclk p2)
        \<and> max_clk_rate p1 = max_clk_rate p2 \<longrightarrow>
      f4_plan h (stm32f4_adc_clk_sel h gr1 p1 io1)
        = f4_plan h (stm32f4_adc_clk_sel h gr2 p2 io2))
   \<and> (map_option gr1 (aclk p1) = map_option gr2 (aclk p2)
        \<and> map_option gr1 (bclk p1) = map_option gr2 (bclk p2)
        \<and> max_clk_rate p1 = max_clk_rate p2 \<longrightarrow>
      h7_plan h (stm32h7_adc_clk_sel h gr1 p1 io1)
        = h7_plan h (stm32h7_adc_clk_sel h gr2 p2 io2))"
  using clk_sel_f4_part [of h get_rate priv io priv' io']
    clk_sel_h7_part [of h get_rate priv io priv'' io'']
    f4_deterministic [of gr1 p1 gr2 p2 h io1 io2]
    h7_deterministic [of gr1 p1 gr2 p2 h io1 io2]
  by blast

text \<open>
  With an 80 MHz analog clock and a bound of 36 MHz both selectors succeed with
  divider 4 and publish 20 MHz. The device with the switch supply, which has the same
  clocks and bound, gets the same plan from another register window.
\<close>

theorem clk_sel_smallest_divider_witness:
  "stm32f4_adc_clk_sel hdr_example rate_example priv_example io_zero =
     Inr (priv_example\<lparr>common_rate := 20000000\<rparr>, io_zero (772 := 65536))
   \<and> stm32h7_adc_clk_sel hdr_example rate_example priv_example io_zero =
     Inr (priv_example\<lparr>common_rate := 20000000\<rparr>, io_zero (776 := 524288))
   \<and> (\<exists>a i. aclk priv_example = Some a \<and> 0 < rate_example a
         \<and> i < length stm32f4_pclk_div
         \<and> rate_example a div nat (stm32f4_pclk_div ! i) \<le> unat (max_clk_rate priv_example)
         \<and> (\<forall>d' \<in> set stm32f4_pclk_div. d' < stm32f4_pclk_div ! i \<longrightarrow>
                unat (max_clk_rate priv_example) < rate_example a div nat d')
         \<and> 20000000 = rate_example a div nat (stm32f4_pclk_div ! i))
   \<and> (\<exists>s rate. s \<in> set stm32h7_adc_ckmodes_spec
         \<and> h7_source_rate rate_example priv_example s = Some rate \<and> 0 < rate
         \<and> rate div nat (ck_div s) \<le> unat (max_clk_rate priv_example)
         \<and> (\<forall>t \<in> set stm32h7_adc_ckmodes_spec. same_mode_smaller t s \<longrightarrow>
                unat (max_clk_rate priv_example) < rate div nat (ck_div t))
         \<and> 20000000 = rate div nat (ck_div s))
   \<and> map_option rate_example (aclk priv_example)
       = map_option rate_example (aclk priv_power_example)
   \<and> map_option rate_example (bclk priv_example)
       = map_option rate_example (bclk priv_power_example)
   \<and> max_clk_rate priv_example = max_clk_rate priv_power_example
   \<and> f4_plan hdr_example
         (stm32f4_adc_clk_sel hdr_example rate_example priv_example io_zero)
       = f4_plan hdr_example
           (stm32f4_adc_clk_sel hdr_example rate_example priv_power_example (io_status 7))
   \<and> h7_plan hdr_example
         (stm32h7_adc_clk_sel hdr_example rate_example priv_example io_zero)
       = h7_plan hdr_example
           (stm32h7_adc_clk_sel hdr_example rate_example priv_power_example (io_status 7))"
proof -
  note f4 = f4_example_run and h7 = h7_example_run
  note inst = clk_sel_smallest_divider [of hdr_example rate_example priv_example io_zero
      "priv_example\<lparr>common_rate := 20000000\<rparr>" "io_zero (772 := 65536)"
      "priv_example\<lparr>common_rate := 20000000\<rparr>" "io_zero (776 := 524288)"
      rate_example priv_example rate_example priv_power_example io_zero "io_status 7"]
  have same: "map_option rate_example (aclk priv_example)
       = map_option rate_example (aclk priv_power_example)"
    "map_option rate_example (bclk priv_example)
       = map_option rate_example (bclk priv_power_example)"
    "max_clk_rate priv_example = max_clk_rate priv_power_example"
    by (simp_all add: priv_power_example_def)
  from inst same
  have det: "f4_plan hdr_example
         (stm32f4_adc_clk_sel hdr_example rate_example priv_example io_zero)
       = f4_plan hdr_example
           (stm32f4_adc_clk_sel hdr_example rate_example priv_power_example (io_status 7))"
    "h7_plan hdr_example
         (stm32h7_adc_clk_sel hdr_example rate_example priv_example io_zero)
       = h7_plan hdr_example
           (stm32h7_adc_clk_sel hdr_example rate_example priv_power_example (io_status 7))"
    by blast+
  from inst f4 h7
  have "(\<exists>a i. aclk priv_example = Some a \<and> 0 < rate_example a
         \<and> i < length stm32f4_pclk_div
         \<and> rate_example a div nat (stm32f4_pclk_div ! i) \<le> unat (max_clk_rate priv_example)
         \<and> (\<forall>d' \<in> set stm32f4_pclk_div. d' < stm32f4_pclk_div ! i \<longrightarrow>
                unat (max_clk_rate priv_example) < rate_example a div nat d')
         \<and> 20000000 = rate_example a div nat (stm32f4_pclk_div ! i))"
    and "(\<exists>s rate. s \<in> set stm32h7_adc_ckmodes_spec
         \<and> h7_source_rate rate_example priv_example s = Some rate \<and> 0 < rate
         \<and> rate div nat (ck_div s) \<le> unat (max_clk_rate priv_example)
         \<and> (\<forall>t \<in> set stm32h7_adc_ckmodes_spec. same_mode_smaller t s \<longrightarrow>
                unat (max_clk_rate priv_example) < rate div nat (ck_div t))
         \<and> 20000000 = rate div nat (ck_div s))"
    by auto
  with f4 h7 same det show ?thesis by blast
qed

text \<open>
  Claim C9. The bound that the probe hands to the clock selector is the smaller of
  the configured override and the maximum of the variant's data sheet when the
  configuration supplies an override, and the data sheet maximum otherwise; in both
  cases it is at most the data sheet maximum. The comparison is that of unsigned
  32-bit values.
\<close>

theorem probe_max_clk_rate_bound:
  "max_clk_rate (stm32_adc_probe_max_clk_rate priv (Some m))
     = min m (max_clk_rate_hz (cfg priv))
   \<and> max_clk_rate (stm32_adc_probe_max_clk_rate priv None) = max_clk_rate_hz (cfg priv)
   \<and> max_clk_rate (stm32_adc_probe_max_clk_rate priv override)
       \<le> max_clk_rate_hz (cfg priv)"
  by (simp add: stm32_adc_probe_max_clk_rate_def split: option.split)

text \<open>
  On the F4 configuration, whose maximum is 36 MHz: an override of 50 MHz leaves
  36 MHz, an override of 20 MHz gives 20 MHz, no override gives 36 MHz.
\<close>

theorem probe_max_clk_rate_bound_witness:
  "max_clk_rate (stm32_adc_probe_max_clk_rate priv_example (Some 50000000)) = 36000000
   \<and> max_clk_rate (stm32_adc_probe_max_clk_rate priv_example (Some 20000000)) = 20000000
   \<and> max_clk_rate (stm32_adc_probe_max_clk_rate priv_example None) = 36000000"
  using probe_max_clk_rate_bound [of priv_example 50000000 None]
    probe_max_clk_rate_bound [of priv_example 20000000 None]
  by (simp add: priv_example_def cfg_f4_example_def stm32f4_adc_priv_cfg_def)

lemma h7_async_table:
  "map ck_div (filter (\<lambda>s. ckmode s = 0) stm32h7_adc_ckmodes_spec)
     = [1, 2, 4, 6, 8, 10, 12, 16, 32, 64, 128, 256]
   \<and> map ck_div (filter (\<lambda>s. ckmode s \<noteq> 0) stm32h7_adc_ckmodes_spec) = [1, 2, 4]"
  by (simp add: stm32h7_adc_ckmodes_spec_def ck_spec_def)

lemma h7_sync_eq:
  "stm32h7_clk_sel_sync h get_rate priv io b =
     (if get_rate b = 0 then Inl EINVAL
      else case find (\<lambda>s. ckmode s \<noteq> 0
                         \<and> get_rate b div nat (ck_div s) \<le> unat (max_clk_rate priv))
                  stm32h7_adc_ckmodes_spec of
             Some s \<Rightarrow> Inr (stm32h7_clk_sel_out h priv io (get_rate b) s)
           | None \<Rightarrow> Inl EINVAL)"
  by (simp add: stm32h7_clk_sel_sync_def Let_def scan_sync_find)

text \<open>
  Claim C4. In the H7 selector (bus clock present) the asynchronous entries of the
  table have the dividers 1, 2, 4, 6, 8, 10, 12, 16, 32, 64, 128, 256 in this order
  and the synchronous entries 1, 2, 4. With an analog clock of nonzero rate the
  result is the first asynchronous entry, in table order, whose quotient meets the
  bound; the synchronous part runs only when there is no such entry or no analog
  clock, and then the first synchronous entry whose quotient of the bus rate meets
  the bound is chosen.
\<close>

theorem h7_prefers_async:
  "map ck_div (filter (\<lambda>s. ckmode s = 0) stm32h7_adc_ckmodes_spec)
     = [1, 2, 4, 6, 8, 10, 12, 16, 32, 64, 128, 256]
   \<and> map ck_div (filter (\<lambda>s. ckmode s \<noteq> 0) stm32h7_adc_ckmodes_spec) = [1, 2, 4]
   \<and> (bclk priv = Some b \<longrightarrow>
        (aclk priv = Some a \<and> 0 < get_rate a \<longrightarrow>
           stm32h7_adc_clk_sel h get_rate priv io =
             (case find (\<lambda>s. ckmode s = 0
                            \<and> get_rate a div nat (ck_div s) \<le> unat (max_clk_rate priv))
                     stm32h7_adc_ckmodes_spec of
                Some s \<Rightarrow> Inr (stm32h7_clk_sel_out h priv io (get_rate a) s)
              | None \<Rightarrow> stm32h7_clk_sel_sync h get_rate priv io b))
      \<and> (aclk priv = None \<longrightarrow>
           stm32h7_adc_clk_sel h get_rate priv io
             = stm32h7_clk_sel_sync h get_rate priv io b)
      \<and> stm32h7_clk_sel_sync h get_rate priv io b =
           (if get_rate b = 0 then Inl EINVAL
            else case find (\<lambda>s. ckmode s \<noteq> 0
                               \<and> get_rate b div nat (ck_div s) \<le> unat (max_clk_rate priv))
                        stm32h7_adc_ckmodes_spec of
                   Some s \<Rightarrow> Inr (stm32h7_clk_sel_out h priv io (get_rate b) s)
                 | None \<Rightarrow> Inl EINVAL))"
proof -
  have "stm32h7_adc_clk_sel h get_rate priv io =
             (case find (\<lambda>s. ckmode s = 0
                            \<and> get_rate a div nat (ck_div s) \<le> unat (max_clk_rate priv))
                     stm32h7_adc_ckmodes_spec of
                Some s \<Rightarrow> Inr (stm32h7_clk_sel_out h priv io (get_rate a) s)
              | None \<Rightarrow> stm32h7_clk_sel_sync h get_rate priv io b)"
    if "bclk priv = Some b" "aclk priv = Some a" "0 < get_rate a"
    using that by (simp add: stm32h7_adc_clk_sel_def Let_def scan_async_find)
  moreover
  have "stm32h7_adc_clk_sel h get_rate priv io = stm32h7_clk_sel_sync h get_rate priv io b"
    if "bclk priv = Some b" "aclk priv = None"
    using that by (simp add: stm32h7_adc_clk_sel_def)
  ultimately show ?thesis
    using h7_async_table h7_sync_eq [of h get_rate priv io b] by blast
qed

text \<open>
  An 80 MHz analog clock under a bound of 36 MHz: the dividers 1 and 2 fail, the
  entry with divider 4 and prescaler code 2 is chosen and 20 MHz is published. No
  analog clock and a 200 MHz bus clock: no synchronous entry meets the bound.
\<close>

theorem h7_prefers_async_witness:
  "bclk priv_example = Some 30 \<and> aclk priv_example = Some 80 \<and> 0 < rate_example 80
   \<and> stm32h7_adc_clk_sel hdr_example rate_example priv_example io_zero =
       Inr (stm32h7_clk_sel_out hdr_example priv_example io_zero 80000000 (ck_spec 0 2 4))
   \<and> common_rate (fst (stm32h7_clk_sel_out hdr_example priv_example io_zero 80000000
                         (ck_spec 0 2 4))) = 20000000
   \<and> bclk (priv_example\<lparr>aclk := None, bclk := Some 200\<rparr>) = Some 200
   \<and> aclk (priv_example\<lparr>aclk := None, bclk := Some 200\<rparr>) = None
   \<and> stm32h7_adc_clk_sel hdr_example rate_example
         (priv_example\<lparr>aclk := None, bclk := Some 200\<rparr>) io_zero = Inl EINVAL"
proof -
  have p: "bclk priv_example = Some 30" "aclk priv_example = Some 80" "0 < rate_example 80"
    "max_clk_rate priv_example = 36000000" "rate_example 80 = 80000000"
    by (simp_all add: priv_example_def rate_example_def)
  have q: "bclk (priv_example\<lparr>aclk := None, bclk := Some 200\<rparr>) = Some 200"
    "aclk (priv_example\<lparr>aclk := None, bclk := Some 200\<rparr>) = None"
    "max_clk_rate (priv_example\<lparr>aclk := None, bclk := Some 200\<rparr>) = 36000000"
    "rate_example 200 = 200000000"
    by (simp_all add: priv_example_def rate_example_def)
  from h7_prefers_async [of priv_example 30 80 rate_example hdr_example io_zero] p
  have "stm32h7_adc_clk_sel hdr_example rate_example priv_example io_zero =
       Inr (stm32h7_clk_sel_out hdr_example priv_example io_zero 80000000 (ck_spec 0 2 4))"
    by (simp add: stm32h7_adc_ckmodes_spec_def ck_spec_def)
  moreover
  from h7_prefers_async [of "priv_example\<lparr>aclk := None, bclk := Some 200\<rparr>" 200 0
       rate_example hdr_example io_zero] q
  have "stm32h7_adc_clk_sel hdr_example rate_example
         (priv_example\<lparr>aclk := None, bclk := Some 200\<rparr>) io_zero = Inl EINVAL"
    by (simp add: stm32h7_adc_ckmodes_spec_def ck_spec_def)
  moreover
  have "common_rate (fst (stm32h7_clk_sel_out hdr_example priv_example io_zero 80000000
                         (ck_spec 0 2 4))) = 20000000"
    by (simp add: stm32h7_clk_sel_out_def ck_spec_def Let_def)
  ultimately show ?thesis using p q by simp
qed

text \<open>
  Claim C10. In the H7 selector an analog clock that is present and reports the rate
  0 makes the selection fail at once: with \<^verbatim>\<open>-EINVAL\<close> when the bus clock is present
  (with \<^verbatim>\<open>-ENOENT\<close>, from the test before it, when there is none). The synchronous
  part never runs, whatever it would have returned.
\<close>

theorem h7_zero_analog_rate_fails:
  "aclk priv = Some a \<Longrightarrow> get_rate a = 0 \<Longrightarrow>
     stm32h7_adc_clk_sel h get_rate priv io
       = Inl (if bclk priv = None then ENOENT else EINVAL)"
  by (simp add: stm32h7_adc_clk_sel_def split: option.split)

text \<open>
  A 30 MHz bus clock meets the bound of 36 MHz with prescaler 1, and the synchronous
  part alone succeeds; with an analog clock of rate 0 the selector fails all the same.
\<close>

theorem h7_zero_analog_rate_fails_witness:
  "aclk (priv_example\<lparr>aclk := Some 0\<rparr>) = Some 0 \<and> rate_example 0 = 0
   \<and> stm32h7_adc_clk_sel hdr_example rate_example (priv_example\<lparr>aclk := Some 0\<rparr>) io_zero
       = Inl EINVAL
   \<and> stm32h7_clk_sel_sync hdr_example rate_example (priv_example\<lparr>aclk := Some 0\<rparr>)
         io_zero 30
       = Inr (priv_example\<lparr>aclk := Some 0, common_rate := 30000000\<rparr>,
              io_zero (776 := 65536))"
proof -
  have p: "aclk (priv_example\<lparr>aclk := Some 0\<rparr>) = Some 0" "rate_example 0 = 0"
    by (simp_all add: rate_example_def)
  have b: "bclk (priv_example\<lparr>aclk := Some 0\<rparr>) = Some 30"
    by (simp add: priv_example_def)
  have s: "stm32h7_clk_sel_sync hdr_example rate_example (priv_example\<lparr>aclk := Some 0\<rparr>)
             io_zero 30
       = Inr (priv_example\<lparr>aclk := Some 0, common_rate := 30000000\<rparr>,
              io_zero (776 := 65536))"
    by (simp add: stm32h7_clk_sel_sync_def stm32h7_clk_sel_out_def priv_example_def
      rate_example_def stm32h7_adc_ckmodes_spec_def ck_spec_def hdr_example_def
      io_zero_def STM32H7_CKMODE_MASK_def STM32H7_PRESC_MASK_def
      STM32H7_CKMODE_SHIFT_def STM32H7_PRESC_SHIFT_def BIT_def)
  from h7_zero_analog_rate_fails [of "priv_example\<lparr>aclk := Some 0\<rparr>" 0 rate_example
      hdr_example io_zero] b p s
  show ?thesis by simp
qed

lemma f4_scan_all_miss:
  "\<forall>d \<in> set ds. unat m < rate div nat d \<Longrightarrow> stm32f4_scan rate m ds i = i + length ds"
  by (induction ds arbitrary: i) auto

lemma f4_scan_end_iff:
  "i + length ds \<le> stm32f4_scan rate m ds i \<longleftrightarrow> (\<forall>d \<in> set ds. unat m < rate div nat d)"
proof (induction ds arbitrary: i)
  case Nil
  then show ?case by simp
next
  case (Cons d ds)
  from Cons [of "Suc i"] show ?case by (auto simp: not_le)
qed

lemma f4_einval_iff:
  "stm32f4_adc_clk_sel h get_rate priv io = Inl EINVAL \<longleftrightarrow>
     (\<exists>a'. aclk priv = Some a'
        \<and> (get_rate a' = 0
            \<or> (\<forall>d \<in> set stm32f4_pclk_div.
                  unat (max_clk_rate priv) < get_rate a' div nat d)))"
  using f4_scan_end_iff [of 0 stm32f4_pclk_div _ "max_clk_rate priv"]
  by (auto simp: stm32f4_adc_clk_sel_def Let_def split: option.splits)

lemma find_None_bound:
  "find (\<lambda>s. Q s \<and> f s \<le> (m::nat)) xs = None \<longleftrightarrow> (\<forall>s \<in> set xs. Q s \<longrightarrow> m < f s)"
  by (auto simp: find_None_iff not_le)

lemma h7_sync_einval_iff:
  "stm32h7_clk_sel_sync h get_rate priv io b = Inl EINVAL \<longleftrightarrow>
     get_rate b = 0
     \<or> (\<forall>s \<in> set stm32h7_adc_ckmodes_spec. ckmode s \<noteq> 0 \<longrightarrow>
           unat (max_clk_rate priv) < get_rate b div nat (ck_div s))"
proof -
  have "stm32h7_clk_sel_sync h get_rate priv io b = Inl EINVAL \<longleftrightarrow>
     get_rate b = 0
     \<or> find (\<lambda>s. ckmode s \<noteq> 0
                  \<and> get_rate b div nat (ck_div s) \<le> unat (max_clk_rate priv))
           stm32h7_adc_ckmodes_spec = None"
    by (simp add: h7_sync_eq split: option.split)
  then show ?thesis by (simp only: find_None_bound)
qed

lemma h7_einval_iff:
  "stm32h7_adc_clk_sel h get_rate priv io = Inl EINVAL \<longleftrightarrow>
     (\<exists>b'. bclk priv = Some b'
        \<and> ((\<exists>a'. aclk priv = Some a' \<and> get_rate a' = 0)
            \<or> ((aclk priv = None
                  \<or> (\<exists>a'. aclk priv = Some a' \<and> 0 < get_rate a'
                        \<and> (\<forall>s \<in> set stm32h7_adc_ckmodes_spec. ckmode s = 0 \<longrightarrow>
                              unat (max_clk_rate priv) < get_rate a' div nat (ck_div s))))
                \<and> (get_rate b' = 0
                    \<or> (\<forall>s \<in> set stm32h7_adc_ckmodes_spec. ckmode s \<noteq> 0 \<longrightarrow>
                          unat (max_clk_rate priv) < get_rate b' div nat (ck_div s))))))"
proof (cases "bclk priv")
  case None
  then show ?thesis by (simp add: stm32h7_adc_clk_sel_def)
next
  case b: (Some b')
  show ?thesis
  proof (cases "aclk priv")
    case None
    with b h7_sync_einval_iff [of h get_rate priv io b'] show ?thesis
      by (simp add: stm32h7_adc_clk_sel_def)
  next
    case a: (Some a')
    show ?thesis
    proof (cases "get_rate a' = 0")
      case True
      with a b show ?thesis by (simp add: stm32h7_adc_clk_sel_def)
    next
      case False
      show ?thesis
      proof (cases "find (\<lambda>s. ckmode s = 0
                   \<and> get_rate a' div nat (ck_div s) \<le> unat (max_clk_rate priv))
               stm32h7_adc_ckmodes_spec")
        case None
        then have "\<forall>s \<in> set stm32h7_adc_ckmodes_spec. ckmode s = 0 \<longrightarrow>
                     unat (max_clk_rate priv) < get_rate a' div nat (ck_div s)"
          by (simp only: find_None_bound)
        with None a b False h7_sync_einval_iff [of h get_rate priv io b'] show ?thesis
          by (simp add: stm32h7_adc_clk_sel_def Let_def scan_async_find)
      next
        case (Some s)
        then have "find (\<lambda>s. ckmode s = 0
                   \<and> get_rate a' div nat (ck_div s) \<le> unat (max_clk_rate priv))
               stm32h7_adc_ckmodes_spec \<noteq> None"
          by simp
        then have "\<not> (\<forall>s \<in> set stm32h7_adc_ckmodes_spec. ckmode s = 0 \<longrightarrow>
                     unat (max_clk_rate priv) < get_rate a' div nat (ck_div s))"
          by (simp only: find_None_bound not_False_eq_True)
        with Some a b False show ?thesis
          by (simp add: stm32h7_adc_clk_sel_def Let_def scan_async_find)
      qed
    qed
  qed
qed

text \<open>
  Claim C8, as the code has it. A selector fails with \<^verbatim>\<open>-ENOENT\<close> exactly when the
  mandatory clock of its variant is absent (the analog clock for F4, the bus clock
  for H7). A mandatory clock that is present and reports the rate 0 gives another
  error, \<^verbatim>\<open>-EINVAL\<close>, which is also the error of a bound that no divider meets: for F4
  always, for H7 when the bus rate is read, that is when there is no analog clock or
  the analog clock has a nonzero rate that no asynchronous entry brings under the
  bound. The last two conjuncts say exactly when \<^verbatim>\<open>-EINVAL\<close> is returned. For F4: the
  analog clock is present and its rate is 0 or no divider meets the bound. For H7:
  the bus clock is present and either the analog clock is present with rate 0, or the
  synchronous part is reached (no analog clock, or one of nonzero rate that no
  asynchronous entry brings under the bound) and the bus rate is 0 or no synchronous
  entry meets the bound.
\<close>

theorem clk_sel_missing_clock_errors:
  "(stm32f4_adc_clk_sel h get_rate priv io = Inl ENOENT \<longleftrightarrow> aclk priv = None)
   \<and> (aclk priv = Some a \<and> get_rate a = 0 \<longrightarrow>
        stm32f4_adc_clk_sel h get_rate priv io = Inl EINVAL)
   \<and> (stm32h7_adc_clk_sel h get_rate priv io = Inl ENOENT \<longleftrightarrow> bclk priv = None)
   \<and> (bclk priv = Some b \<and> get_rate b = 0
        \<and> (aclk priv = None
            \<or> (\<exists>a'. aclk priv = Some a' \<and> 0 < get_rate a'
                  \<and> (\<forall>s \<in> set stm32h7_adc_ckmodes_spec. ckmode s = 0 \<longrightarrow>
                        unat (max_clk_rate priv) < get_rate a' div nat (ck_div s)))) \<longrightarrow>
        stm32h7_adc_clk_sel h get_rate priv io = Inl EINVAL)
   \<and> (aclk priv = Some a \<and> 0 < get_rate a
        \<and> (\<forall>d \<in> set stm32f4_pclk_div.
              unat (max_clk_rate priv) < get_rate a div nat d) \<longrightarrow>
        stm32f4_adc_clk_sel h get_rate priv io = Inl EINVAL)
   \<and> (bclk priv = Some b \<and> 0 < get_rate b \<and> aclk priv = None
        \<and> (\<forall>s \<in> set stm32h7_adc_ckmodes_spec. ckmode s \<noteq> 0 \<longrightarrow>
              unat (max_clk_rate priv) < get_rate b div nat (ck_div s)) \<longrightarrow>
        stm32h7_adc_clk_sel h get_rate priv io = Inl EINVAL)
   \<and> (bclk priv = Some b \<and> 0 < get_rate b \<and> aclk priv = Some a \<and> 0 < get_rate a
        \<and> (\<forall>s \<in> set stm32h7_adc_ckmodes_spec. ckmode s = 0 \<longrightarrow>
              unat (max_clk_rate priv) < get_rate a div nat (ck_div s))
        \<and> (\<forall>s \<in> set stm32h7_adc_ckmodes_spec. ckmode s \<noteq> 0 \<longrightarrow>
              unat (max_clk_rate priv) < get_rate b div nat (ck_div s)) \<longrightarrow>
        stm32h7_adc_clk_sel h get_rate priv io = Inl EINVAL)
   \<and> (stm32f4_adc_clk_sel h get_rate priv io = Inl EINVAL \<longleftrightarrow>
        (\<exists>a'. aclk priv = Some a'
           \<and> (get_rate a' = 0
               \<or> (\<forall>d \<in> set stm32f4_pclk_div.
                     unat (max_clk_rate priv) < get_rate a' div nat d))))
   \<and> (stm32h7_adc_clk_sel h get_rate priv io = Inl EINVAL \<longleftrightarrow>
        (\<exists>b'. bclk priv = Some b'
           \<and> ((\<exists>a'. aclk priv = Some a' \<and> get_rate a' = 0)
               \<or> ((aclk priv = None
                     \<or> (\<exists>a'. aclk priv = Some a' \<and> 0 < get_rate a'
                           \<and> (\<forall>s \<in> set stm32h7_adc_ckmodes_spec. ckmode s = 0 \<longrightarrow>
                                 unat (max_clk_rate priv)
                                   < get_rate a' div nat (ck_div s))))
                   \<and> (get_rate b' = 0
                       \<or> (\<forall>s \<in> set stm32h7_adc_ckmodes_spec. ckmode s \<noteq> 0 \<longrightarrow>
                             unat (max_clk_rate priv)
                               < get_rate b' div nat (ck_div s)))))))"
proof -
  note 9 = f4_einval_iff [of h get_rate priv io]
  note 10 = h7_einval_iff [of h get_rate priv io]
  have 8: "stm32h7_adc_clk_sel h get_rate priv io = Inl EINVAL"
    if "bclk priv = Some b" "0 < get_rate b" "aclk priv = Some a" "0 < get_rate a"
      "\<forall>s \<in> set stm32h7_adc_ckmodes_spec. ckmode s = 0 \<longrightarrow>
              unat (max_clk_rate priv) < get_rate a div nat (ck_div s)"
      "\<forall>s \<in> set stm32h7_adc_ckmodes_spec. ckmode s \<noteq> 0 \<longrightarrow>
              unat (max_clk_rate priv) < get_rate b div nat (ck_div s)"
    unfolding 10 using that by blast
  have 6: "stm32f4_adc_clk_sel h get_rate priv io = Inl EINVAL"
    if "aclk priv = Some a" "0 < get_rate a"
      "\<forall>d \<in> set stm32f4_pclk_div. unat (max_clk_rate priv) < get_rate a div nat d"
    using that f4_scan_all_miss [OF that(3), of 0]
    by (simp add: stm32f4_adc_clk_sel_def)
  have 7: "stm32h7_adc_clk_sel h get_rate priv io = Inl EINVAL"
    if "bclk priv = Some b" "0 < get_rate b" "aclk priv = None"
      "\<forall>s \<in> set stm32h7_adc_ckmodes_spec. ckmode s \<noteq> 0 \<longrightarrow>
              unat (max_clk_rate priv) < get_rate b div nat (ck_div s)"
  proof -
    from that(4) have "find (\<lambda>s. ckmode s \<noteq> 0
                   \<and> get_rate b div nat (ck_div s) \<le> unat (max_clk_rate priv))
               stm32h7_adc_ckmodes_spec = None"
      by (auto simp: find_None_iff)
    with that show ?thesis
      by (simp add: stm32h7_adc_clk_sel_def stm32h7_clk_sel_sync_def Let_def
          scan_sync_find)
  qed
  have 1: "stm32f4_adc_clk_sel h get_rate priv io = Inl ENOENT \<longleftrightarrow> aclk priv = None"
    by (auto simp: stm32f4_adc_clk_sel_def Let_def split: option.splits)
  have 2: "stm32f4_adc_clk_sel h get_rate priv io = Inl EINVAL"
    if "aclk priv = Some a" "get_rate a = 0"
    using that by (simp add: stm32f4_adc_clk_sel_def)
  have 3: "stm32h7_adc_clk_sel h get_rate priv io = Inl ENOENT \<longleftrightarrow> bclk priv = None"
    by (auto simp: stm32h7_adc_clk_sel_def stm32h7_clk_sel_sync_def Let_def
             split: option.splits)
  have s: "stm32h7_clk_sel_sync h get_rate priv io b = Inl EINVAL" if "get_rate b = 0"
    using that by (simp add: stm32h7_clk_sel_sync_def)
  have 4: "stm32h7_adc_clk_sel h get_rate priv io = Inl EINVAL"
    if "bclk priv = Some b" "get_rate b = 0" "aclk priv = None"
    using that s by (simp add: stm32h7_adc_clk_sel_def)
  have 5: "stm32h7_adc_clk_sel h get_rate priv io = Inl EINVAL"
    if "bclk priv = Some b" "get_rate b = 0" "aclk priv = Some a'" "0 < get_rate a'"
      "\<forall>s \<in> set stm32h7_adc_ckmodes_spec. ckmode s = 0 \<longrightarrow>
                        unat (max_clk_rate priv) < get_rate a' div nat (ck_div s)" for a'
  proof -
    from that(5) have "find (\<lambda>s. ckmode s = 0
                   \<and> get_rate a' div nat (ck_div s) \<le> unat (max_clk_rate priv))
               stm32h7_adc_ckmodes_spec = None"
      by (auto simp: find_None_iff)
    with that s show ?thesis
      by (simp add: stm32h7_adc_clk_sel_def Let_def scan_async_find)
  qed
  show ?thesis
    apply (intro conjI)
    subgoal by (rule 1)
    subgoal using 2 by blast
    subgoal by (rule 3)
    subgoal using 4 5 by blast
    subgoal using 6 by blast
    subgoal using 7 by blast
    subgoal using 8 by blast
    subgoal by (rule 9)
    subgoal by (rule 10)
    done
qed

text \<open>
  The instances: no analog clock (F4) and no bus clock (H7) give \<^verbatim>\<open>-ENOENT\<close>; a
  mandatory clock of rate 0, a 400 MHz clock under the F4 dividers, a 200 MHz bus
  clock alone, and a 400 MHz analog clock beside a 30 MHz bus clock under a bound of
  1 MHz (both halves of the table fail) give \<^verbatim>\<open>-EINVAL\<close>.
\<close>

theorem clk_sel_missing_clock_errors_witness:
  "aclk (priv_example\<lparr>aclk := None\<rparr>) = None
   \<and> stm32f4_adc_clk_sel hdr_example rate_example (priv_example\<lparr>aclk := None\<rparr>) io_zero
       = Inl ENOENT
   \<and> aclk (priv_example\<lparr>aclk := Some 0\<rparr>) = Some 0 \<and> rate_example 0 = 0
   \<and> stm32f4_adc_clk_sel hdr_example rate_example (priv_example\<lparr>aclk := Some 0\<rparr>) io_zero
       = Inl EINVAL
   \<and> bclk (priv_example\<lparr>bclk := None\<rparr>) = None
   \<and> stm32h7_adc_clk_sel hdr_example rate_example (priv_example\<lparr>bclk := None\<rparr>) io_zero
       = Inl ENOENT
   \<and> bclk (priv_example\<lparr>aclk := None, bclk := Some 0\<rparr>) = Some 0
   \<and> aclk (priv_example\<lparr>aclk := None, bclk := Some 0\<rparr>) = None
   \<and> stm32h7_adc_clk_sel hdr_example rate_example
         (priv_example\<lparr>aclk := None, bclk := Some 0\<rparr>) io_zero = Inl EINVAL
   \<and> aclk (priv_example\<lparr>aclk := Some 400\<rparr>) = Some 400 \<and> 0 < rate_example 400
   \<and> stm32f4_adc_clk_sel hdr_example rate_example (priv_example\<lparr>aclk := Some 400\<rparr>)
         io_zero = Inl EINVAL
   \<and> bclk (priv_example\<lparr>aclk := None, bclk := Some 200\<rparr>) = Some 200
   \<and> 0 < rate_example 200
   \<and> stm32h7_adc_clk_sel hdr_example rate_example
         (priv_example\<lparr>aclk := None, bclk := Some 200\<rparr>) io_zero = Inl EINVAL
   \<and> aclk (priv_example\<lparr>aclk := Some 400, max_clk_rate := 1000000\<rparr>) = Some 400
   \<and> bclk (priv_example\<lparr>aclk := Some 400, max_clk_rate := 1000000\<rparr>) = Some 30
   \<and> 0 < rate_example 30
   \<and> stm32h7_adc_clk_sel hdr_example rate_example
         (priv_example\<lparr>aclk := Some 400, max_clk_rate := 1000000\<rparr>) io_zero = Inl EINVAL"
  using clk_sel_missing_clock_errors [of hdr_example rate_example
          "priv_example\<lparr>aclk := Some 400, max_clk_rate := 1000000\<rparr>" io_zero 400 30]
    clk_sel_missing_clock_errors [of hdr_example rate_example
          "priv_example\<lparr>aclk := Some 400\<rparr>" io_zero 400 0]
    clk_sel_missing_clock_errors [of hdr_example rate_example
          "priv_example\<lparr>aclk := None, bclk := Some 200\<rparr>" io_zero 0 200]
    clk_sel_missing_clock_errors [of hdr_example rate_example
          "priv_example\<lparr>aclk := None\<rparr>" io_zero 0 0]
    clk_sel_missing_clock_errors [of hdr_example rate_example
          "priv_example\<lparr>aclk := Some 0\<rparr>" io_zero 0 0]
    clk_sel_missing_clock_errors [of hdr_example rate_example
          "priv_example\<lparr>bclk := None\<rparr>" io_zero 0 0]
    clk_sel_missing_clock_errors [of hdr_example rate_example
          "priv_example\<lparr>aclk := None, bclk := Some 0\<rparr>" io_zero 0 0]
  by (simp add: rate_example_def priv_example_def stm32f4_pclk_div_def
      stm32h7_adc_ckmodes_spec_def ck_spec_def)

text \<open>
  Claim C8 as stated fails. For F4, an absent analog clock gives \<^verbatim>\<open>-ENOENT\<close> and an
  analog clock of rate 0 gives \<^verbatim>\<open>-EINVAL\<close>, the error that a 400 MHz clock (which no
  divider brings under 36 MHz) gives too. For H7, a bus clock of rate 0 beside an
  80 MHz analog clock is no failure at all: the bus rate is not read.
\<close>

theorem clk_sel_no_clock_source_counterexample:
  "stm32f4_adc_clk_sel hdr_example rate_example (priv_example\<lparr>aclk := None\<rparr>) io_zero
     = Inl ENOENT
   \<and> stm32f4_adc_clk_sel hdr_example rate_example (priv_example\<lparr>aclk := Some 0\<rparr>) io_zero
     = Inl EINVAL
   \<and> stm32f4_adc_clk_sel hdr_example rate_example (priv_example\<lparr>aclk := Some 400\<rparr>) io_zero
     = Inl EINVAL
   \<and> rate_example 0 = 0
   \<and> stm32h7_adc_clk_sel hdr_example rate_example (priv_example\<lparr>bclk := Some 0\<rparr>) io_zero
     = Inr (priv_example\<lparr>bclk := Some 0, common_rate := 20000000\<rparr>,
            io_zero (776 := 524288))"
proof -
  have "stm32f4_adc_clk_sel hdr_example rate_example (priv_example\<lparr>aclk := None\<rparr>) io_zero
     = Inl ENOENT"
    by (simp add: stm32f4_adc_clk_sel_def)
  moreover
  have "stm32f4_adc_clk_sel hdr_example rate_example (priv_example\<lparr>aclk := Some 0\<rparr>) io_zero
     = Inl EINVAL"
    by (simp add: stm32f4_adc_clk_sel_def rate_example_def)
  moreover
  have "stm32f4_adc_clk_sel hdr_example rate_example (priv_example\<lparr>aclk := Some 400\<rparr>) io_zero
     = Inl EINVAL"
    by (simp add: stm32f4_adc_clk_sel_def priv_example_def rate_example_def
        stm32f4_pclk_div_def)
  moreover
  have "stm32h7_adc_clk_sel hdr_example rate_example (priv_example\<lparr>bclk := Some 0\<rparr>) io_zero
     = Inr (priv_example\<lparr>bclk := Some 0, common_rate := 20000000\<rparr>,
            io_zero (776 := 524288))"
    by (simp add: stm32h7_adc_clk_sel_def stm32h7_clk_sel_out_def priv_example_def
      rate_example_def stm32h7_adc_ckmodes_spec_def ck_spec_def hdr_example_def
      io_zero_def STM32H7_CKMODE_MASK_def STM32H7_PRESC_MASK_def
      STM32H7_CKMODE_SHIFT_def STM32H7_PRESC_SHIFT_def BIT_def)
  ultimately show ?thesis by (simp add: rate_example_def)
qed

section \<open>Interrupt dispatch: properties\<close>

lemmas f4_bits = STM32F4_EOC_MASK1_def STM32F4_EOC_MASK2_def STM32F4_EOC_MASK3_def
  STM32F4_JEOC_MASK1_def STM32F4_JEOC_MASK2_def STM32F4_JEOC_MASK3_def
  STM32F4_OVR3_def STM32F4_JEOC3_def STM32F4_EOC3_def STM32F4_AWD3_def
  STM32F4_OVR2_def STM32F4_JEOC2_def STM32F4_EOC2_def STM32F4_AWD2_def
  STM32F4_OVR1_def STM32F4_JEOC1_def STM32F4_EOC1_def STM32F4_AWD1_def BIT_def

lemmas f4_example_defs = stm32_adc_irq_handler_def stm32_adc_eoc_enabled_def
  stm32_adc_offset_def priv_example_def cfg_f4_example_def stm32f4_adc_priv_cfg_def stm32f4_adc_common_regs_def
  STM32F4_ADC_CSR_def hdr_example_def eoc_msk_def jeoc_msk_def

lemma all_less_3: "(\<forall>j < 3. P j) \<longleftrightarrow> P 0 \<and> P 1 \<and> P (2::nat)"
  by (auto simp: less_Suc_eq numeral_eq_Suc)

lemma less_3_cases: "i < 3 \<longleftrightarrow> i = 0 \<or> i = 1 \<or> i = (2::nat)"
  by auto

lemma handler_filter:
  "stm32_adc_irq_handler h priv io =
     filter (\<lambda>n. if n < 3
                 then io (unat (csr (regs (cfg priv)))) AND eoc_msk (regs (cfg priv)) n \<noteq> 0
                      \<and> io (unat (stm32_adc_offset h ! n) + unat (ier (regs (cfg priv))))
                          AND eocie_msk (regs (cfg priv)) \<noteq> 0
                 else io (unat (csr (regs (cfg priv)))) AND jeoc_msk (regs (cfg priv)) (n - 3)
                        \<noteq> 0)
       [0, 1, 2, 3, 4, 5]"
  by (simp add: stm32_adc_irq_handler_def stm32_adc_eoc_enabled_def stm32_adc_offset_def
      Let_def eoc_msk_def jeoc_msk_def)

text \<open>
  Claim C1, as the code has it. One dispatch delivers events to the virtual lines 0
  to 5 only; the line of the regular conversions of instance \<open>i\<close> is \<open>i\<close> and the
  line of its injected conversions is \<open>3 + i\<close>. A dispatch whose status word meets
  the injected mask of instance \<open>i\<close> and no other mask delivers exactly one event,
  to line \<open>3 + i\<close>, whatever the interrupt-enable registers hold; a status word that
  meets only the regular mask of instance \<open>i\<close>, whose enable bit is set, delivers
  exactly one event, to line \<open>i\<close>. For every dispatch, the events delivered are
  exactly these, in ascending order of the line: line \<open>n\<close> below 3 when the status
  word meets the regular mask of instance \<open>n\<close> and the enable register of instance
  \<open>n\<close> meets the enable mask, line \<open>n\<close> from 3 to 5 when the status word meets the
  injected mask of instance \<open>n - 3\<close>.
\<close>

theorem irq_handler_lines:
  "set (stm32_adc_irq_handler h priv io) \<subseteq> {0, 1, 2, 3, 4, 5}
   \<and> (i < 3 \<and> status = io (unat (csr (regs (cfg priv))))
        \<and> (\<forall>j < 3. status AND eoc_msk (regs (cfg priv)) j = 0)
        \<and> (\<forall>j < 3. (status AND jeoc_msk (regs (cfg priv)) j \<noteq> 0) = (j = i))
      \<longrightarrow> stm32_adc_irq_handler h priv io = [3 + i])
   \<and> (i < 3 \<and> status = io (unat (csr (regs (cfg priv))))
        \<and> (\<forall>j < 3. status AND jeoc_msk (regs (cfg priv)) j = 0)
        \<and> (\<forall>j < 3. (status AND eoc_msk (regs (cfg priv)) j \<noteq> 0) = (j = i))
        \<and> stm32_adc_eoc_enabled h priv io i \<noteq> 0
      \<longrightarrow> stm32_adc_irq_handler h priv io = [i])
   \<and> stm32_adc_irq_handler h priv io =
       filter (\<lambda>n. if n < 3
                   then io (unat (csr (regs (cfg priv)))) AND eoc_msk (regs (cfg priv)) n
                          \<noteq> 0
                        \<and> io (unat (stm32_adc_offset h ! n) + unat (ier (regs (cfg priv))))
                            AND eocie_msk (regs (cfg priv)) \<noteq> 0
                   else io (unat (csr (regs (cfg priv))))
                          AND jeoc_msk (regs (cfg priv)) (n - 3) \<noteq> 0)
         [0, 1, 2, 3, 4, 5]"
proof -
  note d = handler_filter [of h priv io]
  have a: "set (stm32_adc_irq_handler h priv io) \<subseteq> {0, 1, 2, 3, 4, 5}"
    by (auto simp: stm32_adc_irq_handler_def Let_def split: if_splits)
  have b: "stm32_adc_irq_handler h priv io = [3 + i]"
    if "i < 3" "status = io (unat (csr (regs (cfg priv))))"
       "\<forall>j < 3. status AND eoc_msk (regs (cfg priv)) j = 0"
       "\<forall>j < 3. (status AND jeoc_msk (regs (cfg priv)) j \<noteq> 0) = (j = i)"
    using that unfolding all_less_3 less_3_cases
    by (auto simp: stm32_adc_irq_handler_def Let_def eoc_msk_def jeoc_msk_def)
  have c: "stm32_adc_irq_handler h priv io = [i]"
    if "i < 3" "status = io (unat (csr (regs (cfg priv))))"
       "\<forall>j < 3. status AND jeoc_msk (regs (cfg priv)) j = 0"
       "\<forall>j < 3. (status AND eoc_msk (regs (cfg priv)) j \<noteq> 0) = (j = i)"
       "stm32_adc_eoc_enabled h priv io i \<noteq> 0"
    using that unfolding all_less_3 less_3_cases
    by (auto simp: stm32_adc_irq_handler_def Let_def eoc_msk_def jeoc_msk_def)
  show ?thesis
    apply (intro conjI)
    subgoal by (rule a)
    subgoal using b by blast
    subgoal using c by blast
    subgoal by (rule d)
    done
qed

text \<open>
  On the F4 registers the status word \<^verbatim>\<open>JEOC2\<close> meets the injected mask of instance 1
  only: the one event goes to line 4, with all enable bits clear and with all set.
  With \<^verbatim>\<open>EOC1\<close> and \<^verbatim>\<open>EOC2\<close> set and the enable bits set, two events go to the
  lines 0 and 1, in this order.
\<close>

theorem irq_handler_lines_witness:
  "(1::nat) < 3
   \<and> STM32F4_JEOC2 AND eoc_msk (regs (cfg priv_example)) 0 = 0
   \<and> STM32F4_JEOC2 AND eoc_msk (regs (cfg priv_example)) 1 = 0
   \<and> STM32F4_JEOC2 AND eoc_msk (regs (cfg priv_example)) 2 = 0
   \<and> STM32F4_JEOC2 AND jeoc_msk (regs (cfg priv_example)) 0 = 0
   \<and> STM32F4_JEOC2 AND jeoc_msk (regs (cfg priv_example)) 1 \<noteq> 0
   \<and> STM32F4_JEOC2 AND jeoc_msk (regs (cfg priv_example)) 2 = 0
   \<and> stm32_adc_irq_handler hdr_example priv_example (io_status STM32F4_JEOC2) = [4]
   \<and> stm32_adc_irq_handler hdr_example priv_example (io_status_enabled STM32F4_JEOC2) = [4]
   \<and> (0::nat) < 3
   \<and> stm32_adc_eoc_enabled hdr_example priv_example (io_status_enabled STM32F4_EOC1) 0 \<noteq> 0
   \<and> stm32_adc_irq_handler hdr_example priv_example (io_status_enabled STM32F4_EOC1) = [0]
   \<and> stm32_adc_irq_handler hdr_example priv_example
         (io_status_enabled (STM32F4_EOC1 OR STM32F4_EOC2)) = [0, 1]"
proof -
  from irq_handler_lines [of hdr_example priv_example
      "io_status_enabled (STM32F4_EOC1 OR STM32F4_EOC2)" 0 0]
  have two: "stm32_adc_irq_handler hdr_example priv_example
         (io_status_enabled (STM32F4_EOC1 OR STM32F4_EOC2)) = [0, 1]"
    by (simp add: stm32_adc_offset_def priv_example_def cfg_f4_example_def
        stm32f4_adc_priv_cfg_def stm32f4_adc_common_regs_def STM32F4_ADC_CSR_def
        hdr_example_def eoc_msk_def jeoc_msk_def f4_bits io_status_enabled_def)
  have r: "\<forall>j < 3. STM32F4_EOC1 AND jeoc_msk (regs (cfg priv_example)) j = 0"
    "\<forall>j < 3. (STM32F4_EOC1 AND eoc_msk (regs (cfg priv_example)) j \<noteq> 0) = (j = 0)"
    unfolding all_less_3 by (simp_all add: f4_example_defs f4_bits)
  have e: "stm32_adc_eoc_enabled hdr_example priv_example (io_status_enabled STM32F4_EOC1) 0
             \<noteq> 0"
    "STM32F4_EOC1
       = io_status_enabled STM32F4_EOC1 (unat (csr (regs (cfg priv_example))))"
    by (simp_all add: f4_example_defs f4_bits io_status_enabled_def)
  from irq_handler_lines [of hdr_example priv_example "io_status_enabled STM32F4_EOC1" 0
      STM32F4_EOC1] r e
  have reg: "stm32_adc_irq_handler hdr_example priv_example (io_status_enabled STM32F4_EOC1)
          = [0]"
    by simp
  have m: "\<forall>j < 3. STM32F4_JEOC2 AND eoc_msk (regs (cfg priv_example)) j = 0"
    "\<forall>j < 3. (STM32F4_JEOC2 AND jeoc_msk (regs (cfg priv_example)) j \<noteq> 0) = (j = 1)"
    unfolding all_less_3 by (simp_all add: f4_example_defs f4_bits)
  have s: "STM32F4_JEOC2 = io_status STM32F4_JEOC2 (unat (csr (regs (cfg priv_example))))"
    "STM32F4_JEOC2
       = io_status_enabled STM32F4_JEOC2 (unat (csr (regs (cfg priv_example))))"
    by (simp_all add: f4_example_defs io_status_def io_status_enabled_def)
  from irq_handler_lines [of hdr_example priv_example "io_status STM32F4_JEOC2" 1
      STM32F4_JEOC2] m s(1)
  have "stm32_adc_irq_handler hdr_example priv_example (io_status STM32F4_JEOC2) = [4]"
    by simp
  moreover
  from irq_handler_lines [of hdr_example priv_example "io_status_enabled STM32F4_JEOC2" 1
      STM32F4_JEOC2] m s(2)
  have "stm32_adc_irq_handler hdr_example priv_example (io_status_enabled STM32F4_JEOC2)
          = [4]"
    by simp
  ultimately show ?thesis using m e(1) reg two unfolding all_less_3 by simp
qed

text \<open>
  Claim C1 as stated fails. With only \<^verbatim>\<open>JEOC2\<close>, the injected end-of-conversion flag
  of instance 1, set in the F4 status register, the one event goes to line 4 and none
  to line \<open>2 * 1 + 1\<close>. With all the bits of the injected mask of instance 1 set
  (\<^verbatim>\<open>JEOC2\<close> and \<^verbatim>\<open>AWD2\<close>) and the enable bits set there are two events, to the lines
  1 and 4, since the regular mask of instance 1 holds \<^verbatim>\<open>AWD2\<close> too.
\<close>

theorem irq_handler_slot_counterexample:
  "stm32_adc_irq_handler hdr_example priv_example (io_status STM32F4_JEOC2) = [4]
   \<and> 2 * 1 + 1 \<notin> set (stm32_adc_irq_handler hdr_example priv_example
                          (io_status STM32F4_JEOC2))
   \<and> stm32_adc_irq_handler hdr_example priv_example
        (io_status_enabled STM32F4_JEOC_MASK2) = [1, 4]"
  by (simp add: f4_example_defs f4_bits io_status_def io_status_enabled_def)

text \<open>
  Claim C2. For every register window and every instance \<open>i\<close> of 0, 1, 2, one
  dispatch delivers an event to the regular line of \<open>i\<close> (line \<open>i\<close>) exactly when the
  status word meets the regular mask of \<open>i\<close> and the enable register of \<open>i\<close>, at the
  instance's offset, meets the enable mask; it delivers an event to the injected line
  of \<open>i\<close> (line \<open>3 + i\<close>) exactly when the status word meets the injected mask of \<open>i\<close>,
  whatever the enable registers hold. No line gets more than one event. When the
  status word meets no injected mask and the enable bit is clear for every instance
  whose regular mask it meets, nothing is delivered.
\<close>

theorem irq_handler_gating:
  "i < 3 \<Longrightarrow>
     (i \<in> set (stm32_adc_irq_handler h priv io) \<longleftrightarrow>
        io (unat (csr (regs (cfg priv)))) AND eoc_msk (regs (cfg priv)) i \<noteq> 0
        \<and> io (unat (stm32_adc_offset h ! i) + unat (ier (regs (cfg priv))))
            AND eocie_msk (regs (cfg priv)) \<noteq> 0)
   \<and> (3 + i \<in> set (stm32_adc_irq_handler h priv io) \<longleftrightarrow>
        io (unat (csr (regs (cfg priv)))) AND jeoc_msk (regs (cfg priv)) i \<noteq> 0)
   \<and> distinct (stm32_adc_irq_handler h priv io)
   \<and> ((\<forall>j < 3. io (unat (csr (regs (cfg priv)))) AND jeoc_msk (regs (cfg priv)) j = 0)
        \<and> (\<forall>j < 3. io (unat (csr (regs (cfg priv)))) AND eoc_msk (regs (cfg priv)) j \<noteq> 0
               \<longrightarrow> stm32_adc_eoc_enabled h priv io j = 0)
      \<longrightarrow> stm32_adc_irq_handler h priv io = [])"
proof -
  assume "i < 3"
  then consider "i = 0" | "i = 1" | "i = 2" by linarith
  then have "(i \<in> set (stm32_adc_irq_handler h priv io) \<longleftrightarrow>
        io (unat (csr (regs (cfg priv)))) AND eoc_msk (regs (cfg priv)) i \<noteq> 0
        \<and> io (unat (stm32_adc_offset h ! i) + unat (ier (regs (cfg priv))))
            AND eocie_msk (regs (cfg priv)) \<noteq> 0)
   \<and> (3 + i \<in> set (stm32_adc_irq_handler h priv io) \<longleftrightarrow>
        io (unat (csr (regs (cfg priv)))) AND jeoc_msk (regs (cfg priv)) i \<noteq> 0)
   \<and> distinct (stm32_adc_irq_handler h priv io)"
  proof cases
    case 1
    then show ?thesis
      by (simp add: stm32_adc_irq_handler_def stm32_adc_eoc_enabled_def
          stm32_adc_offset_def eoc_msk_def jeoc_msk_def Let_def)
  next
    case 2
    then show ?thesis
      by (simp add: stm32_adc_irq_handler_def stm32_adc_eoc_enabled_def
          stm32_adc_offset_def eoc_msk_def jeoc_msk_def Let_def)
  next
    case 3
    then show ?thesis
      by (simp add: stm32_adc_irq_handler_def stm32_adc_eoc_enabled_def
          stm32_adc_offset_def eoc_msk_def jeoc_msk_def Let_def)
  qed
  moreover
  have "stm32_adc_irq_handler h priv io = []"
    if "\<forall>j < 3. io (unat (csr (regs (cfg priv)))) AND jeoc_msk (regs (cfg priv)) j = 0"
       "\<forall>j < 3. io (unat (csr (regs (cfg priv)))) AND eoc_msk (regs (cfg priv)) j \<noteq> 0
               \<longrightarrow> stm32_adc_eoc_enabled h priv io j = 0"
    using that unfolding all_less_3
    by (auto simp: stm32_adc_irq_handler_def Let_def eoc_msk_def jeoc_msk_def)
  ultimately show ?thesis by blast
qed

text \<open>
  On the F4 registers, with \<^verbatim>\<open>EOC1\<close> alone in the status register: nothing is
  delivered while the enable bits are clear, one event goes to line 0 when they are
  set.
\<close>

theorem irq_handler_gating_witness:
  "(0::nat) < 3
   \<and> 0 \<notin> set (stm32_adc_irq_handler hdr_example priv_example (io_status STM32F4_EOC1))
   \<and> stm32_adc_irq_handler hdr_example priv_example (io_status STM32F4_EOC1) = []
   \<and> 0 \<in> set (stm32_adc_irq_handler hdr_example priv_example
                  (io_status_enabled STM32F4_EOC1))
   \<and> 3 \<notin> set (stm32_adc_irq_handler hdr_example priv_example
                  (io_status_enabled STM32F4_EOC1))"
proof -
  have z: "(0::nat) < 3" by simp
  from irq_handler_gating [OF z, of hdr_example priv_example "io_status STM32F4_EOC1"]
  have "0 \<notin> set (stm32_adc_irq_handler hdr_example priv_example (io_status STM32F4_EOC1))"
    and "stm32_adc_irq_handler hdr_example priv_example (io_status STM32F4_EOC1) = []"
    unfolding all_less_3
    by (simp_all add: f4_example_defs f4_bits io_status_def)
  moreover
  from irq_handler_gating [OF z, of hdr_example priv_example
      "io_status_enabled STM32F4_EOC1"]
  have "0 \<in> set (stm32_adc_irq_handler hdr_example priv_example
                  (io_status_enabled STM32F4_EOC1))"
    and "3 \<notin> set (stm32_adc_irq_handler hdr_example priv_example
                  (io_status_enabled STM32F4_EOC1))"
    by (simp_all add: f4_example_defs f4_bits io_status_enabled_def)
  ultimately show ?thesis by simp
qed

section \<open>Power sequencing: properties\<close>

lemmas power_example_defs = priv_power_example_def priv_example_def
  stm32_adc_switches_supply_en_def switches_supply_en_vdd_def switches_supply_en_apply_def
  switches_supply_settings_def syscfg_apply_def syscfg_clear_def do_call_def
  vdda_dis_def vdd_dis_def booster_dis_def stm32_adc_switches_supply_dis_def

lemma supply_en_run_high:
  "stm32_adc_switches_supply_en (env_example 2800000 0 0) priv_power_example [] =
     (0, [Regulator_enable 10, Regulator_get_voltage 10, Regulator_enable 11,
          Regulator_get_voltage 11, Regmap_write 20 0x44 0x100,
          Regmap_write 20 0x44 0x200])"
  by (simp add: power_example_defs)

lemma supply_en_run_low_low:
  "stm32_adc_switches_supply_en (env_example 2600000 2500000 e) priv_power_example [] =
     (0, [Regulator_enable 10, Regulator_get_voltage 10, Regulator_enable 11,
          Regulator_get_voltage 11, Regmap_update_bits 20 0x20 0x100 0x100,
          Usleep_range 50 100, Regmap_write 20 0x44 0x200])"
  by (simp add: power_example_defs)

lemma supply_en_run_low_high:
  "stm32_adc_switches_supply_en (env_example 2600000 2800000 0) priv_power_example [] =
     (0, [Regulator_enable 10, Regulator_get_voltage 10, Regulator_enable 11,
          Regulator_get_voltage 11, Regmap_write 20 0x44 0x100,
          Regmap_update_bits 20 0x20 0x200 0x200])"
  by (simp add: power_example_defs)

lemma apply_first_call:
  "take (Suc (length tr)) (snd (switches_supply_en_apply env priv va vb vdda_uv vdd_uv tr))
     = tr @ [syscfg_apply (vbooster priv) (vbooster_clr priv) vb
               (snd (switches_supply_settings priv vdda_uv vdd_uv))]"
  by (simp add: switches_supply_en_apply_def do_call_def Let_def
           split: prod.split option.split)

lemma apply_last_call:
  assumes "switches_supply_en_apply env priv va vb vdda_uv vdd_uv tr = (0, tr')"
    and "regmap (anaswvdd priv) = Some an"
  shows "last tr' = syscfg_apply (anaswvdd priv) (anaswvdd_clr priv) an
               (fst (switches_supply_settings priv vdda_uv vdd_uv))"
  using assms
  by (auto simp: switches_supply_en_apply_def do_call_def Let_def
           split: prod.splits if_splits)

lemma supply_en_apply_run:
  "switches_supply_en_apply (env_example 0 0 0) priv_power_example 10 20 2600000 2800000 []
     = (0, [Regmap_write 20 0x44 0x100, Regmap_update_bits 20 0x20 0x200 0x200])"
  by (simp add: power_example_defs)

text \<open>
  Claim C5. For all voltages \<open>vdda_uv\<close> and \<open>vdd_uv\<close> in microvolts, the settings are:
  above 2700000 on \<open>vdda\<close>, booster off and switch-select off; otherwise, with \<open>vdd\<close>
  below 2700000, booster on and switch-select off; otherwise booster off and
  switch-select on. The pair is (switch-select, booster); "on" is the mask of the
  cell, "off" is 0. These settings are the ones applied: the first call after the
  measurements writes the booster setting, and the last call of a successful enable
  sequence writes the switch-select setting when the switch-select cell is configured.
\<close>

theorem switches_supply_policy:
  "(2700000 < vdda_uv \<longrightarrow> switches_supply_settings priv vdda_uv vdd_uv = (0, 0))
   \<and> (vdda_uv \<le> 2700000 \<and> vdd_uv < 2700000 \<longrightarrow>
        switches_supply_settings priv vdda_uv vdd_uv = (0, mask_bits (vbooster priv)))
   \<and> (vdda_uv \<le> 2700000 \<and> 2700000 \<le> vdd_uv \<longrightarrow>
        switches_supply_settings priv vdda_uv vdd_uv = (mask_bits (anaswvdd priv), 0))
   \<and> take (Suc (length tr))
         (snd (switches_supply_en_apply env priv va vb vdda_uv vdd_uv tr))
       = tr @ [syscfg_apply (vbooster priv) (vbooster_clr priv) vb
                 (snd (switches_supply_settings priv vdda_uv vdd_uv))]
   \<and> (switches_supply_en_apply env priv va vb vdda_uv vdd_uv tr = (0, tr')
        \<and> regmap (anaswvdd priv) = Some an \<longrightarrow>
      last tr' = syscfg_apply (anaswvdd priv) (anaswvdd_clr priv) an
                   (fst (switches_supply_settings priv vdda_uv vdd_uv)))"
  using apply_first_call [of tr env priv va vb vdda_uv vdd_uv]
    apply_last_call [of env priv va vb vdda_uv vdd_uv tr tr' an]
  by (simp add: switches_supply_settings_def)

text \<open>
  The three rows of the table on the device with booster mask \<open>0x100\<close> and
  switch-select mask \<open>0x200\<close>, and the calls that the enable sequence makes when the
  regulators measure these voltages: the booster is cleared, set or cleared, the
  switch-select cleared, cleared or set.
\<close>

theorem switches_supply_policy_witness:
  "switches_supply_settings priv_power_example 2800000 0 = (0, 0)
   \<and> switches_supply_settings priv_power_example 2600000 2500000 = (0, 0x100)
   \<and> switches_supply_settings priv_power_example 2600000 2800000 = (0x200, 0)
   \<and> stm32_adc_switches_supply_en (env_example 2800000 0 0) priv_power_example [] =
       (0, [Regulator_enable 10, Regulator_get_voltage 10, Regulator_enable 11,
            Regulator_get_voltage 11, Regmap_write 20 0x44 0x100,
            Regmap_write 20 0x44 0x200])
   \<and> stm32_adc_switches_supply_en (env_example 2600000 2500000 0) priv_power_example [] =
       (0, [Regulator_enable 10, Regulator_get_voltage 10, Regulator_enable 11,
            Regulator_get_voltage 11, Regmap_update_bits 20 0x20 0x100 0x100,
            Usleep_range 50 100, Regmap_write 20 0x44 0x200])
   \<and> stm32_adc_switches_supply_en (env_example 2600000 2800000 0) priv_power_example [] =
       (0, [Regulator_enable 10, Regulator_get_voltage 10, Regulator_enable 11,
            Regulator_get_voltage 11, Regmap_write 20 0x44 0x100,
            Regmap_update_bits 20 0x20 0x200 0x200])
   \<and> switches_supply_en_apply (env_example 0 0 0) priv_power_example 10 20
         2600000 2800000 []
       = (0, [Regmap_write 20 0x44 0x100, Regmap_update_bits 20 0x20 0x200 0x200])
   \<and> regmap (anaswvdd priv_power_example) = Some 20
   \<and> last [Regmap_write 20 0x44 0x100, Regmap_update_bits 20 0x20 0x200 0x200]
       = syscfg_apply (anaswvdd priv_power_example) (anaswvdd_clr priv_power_example) 20
           (fst (switches_supply_settings priv_power_example 2600000 2800000))"
proof -
  have a: "regmap (anaswvdd priv_power_example) = Some 20"
    by (simp add: priv_power_example_def)
  from switches_supply_policy [where vdda_uv = 2600000 and vdd_uv = 2800000
      and priv = priv_power_example and env = "env_example 0 0 0" and va = 10 and vb = 20
      and tr = "[]" and an = 20
      and tr' = "[Regmap_write 20 0x44 0x100, Regmap_update_bits 20 0x20 0x200 0x200]"]
    supply_en_apply_run a
  have l: "last [Regmap_write 20 0x44 0x100, Regmap_update_bits 20 0x20 0x200 0x200]
       = syscfg_apply (anaswvdd priv_power_example) (anaswvdd_clr priv_power_example) 20
           (fst (switches_supply_settings priv_power_example 2600000 2800000))"
    by blast
  from switches_supply_policy [where vdda_uv = 2800000 and vdd_uv = 0
      and priv = priv_power_example]
    switches_supply_policy [where vdda_uv = 2600000 and vdd_uv = 2500000
      and priv = priv_power_example]
    switches_supply_policy [where vdda_uv = 2600000 and vdd_uv = 2800000
      and priv = priv_power_example]
  have "switches_supply_settings priv_power_example 2800000 0 = (0, 0)"
    "switches_supply_settings priv_power_example 2600000 2500000 = (0, 0x100)"
    "switches_supply_settings priv_power_example 2600000 2800000 = (0x200, 0)"
    by (simp_all add: priv_power_example_def)
  with l a supply_en_apply_run supply_en_run_high supply_en_run_low_low [of 0]
    supply_en_run_low_high
  show ?thesis by simp
qed



lemma hw_start_success:
  assumes "stm32_adc_core_hw_start env p tr io = (0, tr', io')"
  shows "io' = io (unat (ccr (regs (cfg p))) := ccr_bak p)"
  using assms
  by (auto simp: stm32_adc_core_hw_start_def hw_start_aclk_def Let_def do_call_def
           split: prod.splits option.splits if_splits)

text \<open>
  Claim C7. \<^verbatim>\<open>stm32_adc_core_hw_stop\<close> stores the value that the control register
  holds when it is called in \<^verbatim>\<open>priv->ccr_bak\<close>. A later \<^verbatim>\<open>stm32_adc_core_hw_start\<close>
  that succeeds (returns 0), from any state of the providers and any contents of the
  register window, leaves the window with that value in the control register and
  every other register as it found it.
\<close>

theorem hw_stop_start_restores_ccr:
  assumes "stm32_adc_core_hw_stop priv tr io = (priv1, tr1)"
    and "stm32_adc_core_hw_start env priv1 tr2 io2 = (0, tr3, io3)"
  shows "ccr_bak priv1 = io (unat (ccr (regs (cfg priv))))
         \<and> io3 = io2 (unat (ccr (regs (cfg priv))) := io (unat (ccr (regs (cfg priv)))))"
proof -
  from assms(1) have p: "ccr_bak priv1 = io (unat (ccr (regs (cfg priv))))"
    "cfg priv1 = cfg priv"
    by (auto simp: stm32_adc_core_hw_stop_def Let_def)
  with hw_start_success [OF assms(2)] show ?thesis by simp
qed

text \<open>
  The control register (offset \<open>0x304\<close>) holds \<open>0x230000\<close> at the stop; the start
  finds a window of zeros and puts \<open>0x230000\<close> back.
\<close>

theorem hw_stop_start_restores_ccr_witness:
  "stm32_adc_core_hw_stop priv_power_example [] (io_zero (772 := 0x230000)) =
     (priv_power_example\<lparr>ccr_bak := 0x230000\<rparr>,
      [Clk_disable_unprepare 80, Clk_disable_unprepare 30, Regulator_disable 1,
       Regmap_write 20 0x44 0x200, Regmap_write 20 0x44 0x100,
       Regulator_disable 11, Regulator_disable 10])
   \<and> stm32_adc_core_hw_start (env_example 2800000 0 0)
        (priv_power_example\<lparr>ccr_bak := 0x230000\<rparr>) [] io_zero =
     (0,
      [Regulator_enable 10, Regulator_get_voltage 10, Regulator_enable 11,
       Regulator_get_voltage 11, Regmap_write 20 0x44 0x100, Regmap_write 20 0x44 0x200,
       Regulator_enable 1, Clk_prepare_enable 30, Clk_prepare_enable 80],
      io_zero (772 := 0x230000))
   \<and> ccr_bak (priv_power_example\<lparr>ccr_bak := 0x230000\<rparr>) = 0x230000
   \<and> (io_zero (772 := 0x230000)) (unat (ccr (regs (cfg priv_power_example)))) = 0x230000"
proof -
  have c: "unat (ccr (regs (cfg priv_power_example))) = 772"
    by (simp add: priv_power_example_def priv_example_def cfg_f4_example_def stm32f4_adc_priv_cfg_def
        stm32f4_adc_common_regs_def hdr_example_def)
  have stop: "stm32_adc_core_hw_stop priv_power_example [] (io_zero (772 := 0x230000)) =
     (priv_power_example\<lparr>ccr_bak := 0x230000\<rparr>,
      [Clk_disable_unprepare 80, Clk_disable_unprepare 30, Regulator_disable 1,
       Regmap_write 20 0x44 0x200, Regmap_write 20 0x44 0x100,
       Regulator_disable 11, Regulator_disable 10])"
    by (simp add: stm32_adc_core_hw_stop_def Let_def c)
       (simp add: priv_power_example_def priv_example_def
          stm32_adc_switches_supply_dis_def syscfg_clear_def)
  have start: "stm32_adc_core_hw_start (env_example 2800000 0 0)
        (priv_power_example\<lparr>ccr_bak := 0x230000\<rparr>) [] io_zero =
     (0,
      [Regulator_enable 10, Regulator_get_voltage 10, Regulator_enable 11,
       Regulator_get_voltage 11, Regmap_write 20 0x44 0x100, Regmap_write 20 0x44 0x200,
       Regulator_enable 1, Clk_prepare_enable 30, Clk_prepare_enable 80],
      io_zero (772 := 0x230000))"
    by (simp add: stm32_adc_core_hw_start_def hw_start_aclk_def power_example_defs
        cfg_f4_example_def stm32f4_adc_priv_cfg_def stm32f4_adc_common_regs_def hdr_example_def)
  from hw_stop_start_restores_ccr [OF stop start] stop start c show ?thesis
    by simp
qed

end
